theory Spec2Isabelle
  imports Complex_Main "HOL-Library.Multiset" "HOL-Library.Word"
begin

unbundle bit_operations_syntax

section \<open>Earl Box: the file service (app/file_service.py, app/models.py)\<close>

text \<open>
  The service stores uploaded bytes under \<^verbatim>\<open>uploads/<uuid><ext>\<close>, records one row per
  upload in the table \<^verbatim>\<open>uploaded_files\<close>, and resolves stored names back to paths.
  The model makes the environment explicit: the file system (a symlink-free tree of
  directories and regular files, addressed by absolute component lists), the working
  directory, the table, and the sources of randomness, time and I/O faults.
\<close>

subsection \<open>Python strings\<close>

type_synonym byte = "8 word"

text \<open>\<^verbatim>\<open>s.split(c)\<close>: the pieces between the occurrences of \<open>c\<close>; never empty.\<close>

fun split_on :: "char \<Rightarrow> string \<Rightarrow> string list" where
  "split_on c [] = [Nil]"
| "split_on c (x # xs) =
     (if x = c then [] # split_on c xs
      else (case split_on c xs of [] \<Rightarrow> [x] # [] | w # ws \<Rightarrow> (x # w) # ws))"

text \<open>\<^verbatim>\<open>s.rfind(c)\<close>: the highest index of \<open>c\<close> in \<open>s\<close>, or \<open>-1\<close>.\<close>

fun rfind :: "char \<Rightarrow> string \<Rightarrow> int" where
  "rfind c [] = - 1"
| "rfind c (x # xs) =
     (let r = rfind c xs in if 0 \<le> r then r + 1 else if x = c then 0 else - 1)"

text \<open>\<^verbatim>\<open>s.endswith(t)\<close>.\<close>

definition endswith :: "string \<Rightarrow> string \<Rightarrow> bool" where
  "endswith s t = (length t \<le> length s \<and> drop (length s - length t) s = t)"

definition digit_char :: "nat \<Rightarrow> char" where
  "digit_char d = ''0123456789'' ! (d mod 10)"

text \<open>\<^verbatim>\<open>str(n)\<close> for a non-negative integer.\<close>

fun str_of_nat :: "nat \<Rightarrow> string" where
  "str_of_nat n =
     (if n < 10 then [digit_char n] else str_of_nat (n div 10) @ [digit_char (n mod 10)])"

declare str_of_nat.simps [simp del]

text \<open>Truthiness of an \<^verbatim>\<open>Optional[str]\<close>: \<^verbatim>\<open>None\<close> and the empty string are falsy.\<close>

definition truthy :: "string option \<Rightarrow> bool" where
  "truthy x = (case x of None \<Rightarrow> False | Some s \<Rightarrow> s \<noteq> [])"

subsection \<open>pathlib on POSIX\<close>

text \<open>
  A \<^verbatim>\<open>PurePosixPath\<close> is its root (\<^verbatim>\<open>''\<close>, \<^verbatim>\<open>'/'\<close> or \<^verbatim>\<open>'//'\<close>) and the list of its
  components. Parsing drops empty components and \<^verbatim>\<open>'.'\<close>, and keeps \<^verbatim>\<open>'..'\<close>.
\<close>

record pure_path =
  path_root :: string
  path_tail :: "string list"

text \<open>\<^verbatim>\<open>posixpath.splitroot\<close>, without the drive (always empty on POSIX).\<close>

definition splitroot :: "string \<Rightarrow> string \<times> string" where
  "splitroot p =
     (if take 1 p \<noteq> ''/'' then ([], p)
      else if take 1 (drop 1 p) \<noteq> ''/'' \<or> take 1 (drop 2 p) = ''/'' then (''/'', drop 1 p)
      else (take 2 p, drop 2 p))"

definition parse_path :: "string \<Rightarrow> pure_path" where
  "parse_path p =
     (let (r, rel) = splitroot p
      in \<lparr>path_root = r,
          path_tail = filter (\<lambda>x. x \<noteq> [] \<and> x \<noteq> ''.'') (split_on CHR ''/'' rel)\<rparr>)"

text \<open>
  The operator \<^verbatim>\<open>path / key\<close>: a key with a root replaces the path, any other key
  appends its components.
\<close>

definition path_div :: "pure_path \<Rightarrow> string \<Rightarrow> pure_path" where
  "path_div p key =
     (let q = parse_path key
      in if path_root q \<noteq> [] then q
         else \<lparr>path_root = path_root p, path_tail = path_tail p @ path_tail q\<rparr>)"

text \<open>\<^verbatim>\<open>path.name\<close>: the final component, or the empty string.\<close>

definition name :: "pure_path \<Rightarrow> string" where
  "name p = (if path_tail p = [] then [] else last (path_tail p))"

text \<open>
  \<^verbatim>\<open>path.suffix\<close>: the final component from its last dot on, when that dot is neither
  the first nor the last character of the component; the empty string otherwise
  (pathlib up to Python 3.13).
\<close>

definition suffix :: "pure_path \<Rightarrow> string" where
  "suffix p =
     (let n = name p; i = rfind CHR ''.'' n
      in if 0 < i \<and> i < int (length n) - 1 then drop (nat i) n else [])"

subsection \<open>uuid.uuid4 and its string form\<close>

definition hexdigit :: "nat \<Rightarrow> char" where
  "hexdigit d = ''0123456789abcdef'' ! (d mod 16)"

text \<open>\<^verbatim>\<open>'%032x' % n\<close> for \<open>0 \<le> n < 2 ^ 128\<close>.\<close>

definition hex32 :: "int \<Rightarrow> string" where
  "hex32 n = map (\<lambda>k. hexdigit (nat ((n div 16 ^ (31 - k)) mod 16))) [0..<32]"

text \<open>
  \<^verbatim>\<open>UUID(bytes=os.urandom(16), version=4).int\<close>: the sixteen random bytes as an
  integer, with the variant and version bits set.
\<close>

definition uuid4_int :: "int \<Rightarrow> int" where
  "uuid4_int r =
     (let n0 = r mod 2 ^ 128;
          n1 = (n0 AND NOT (push_bit 48 0xc000)) OR push_bit 48 0x8000;
          n2 = (n1 AND NOT (push_bit 64 0xf000)) OR push_bit 76 4
      in n2)"

text \<open>\<^verbatim>\<open>str(uuid)\<close>: the hexadecimal digits grouped 8-4-4-4-12.\<close>

definition uuid_str :: "int \<Rightarrow> string" where
  "uuid_str n =
     (let h = hex32 n
      in take 8 h @ ''-'' @ take 4 (drop 8 h) @ ''-'' @ take 4 (drop 12 h) @ ''-''
           @ take 4 (drop 16 h) @ ''-'' @ drop 20 h)"

subsection \<open>The table of uploads (app/models.py)\<close>

record uploaded_file =
  id_field :: "int option"
  original_filename :: string
  stored_filename :: string
  file_size :: int
  content_type :: string
  upload_timestamp :: int
  public_url :: string

text \<open>
  Modelled from the spec: \<^verbatim>\<open>app.database\<close> (the engine and \<^verbatim>\<open>get_session\<close>) is not
  among the sources. The table is the list of its rows in insertion order together with
  the next primary key; the store assigns \<open>id\<close> monotonically and surfaces a collision
  of \<open>stored_filename\<close> (declared \<^verbatim>\<open>unique=True\<close> in the model class) as a failure.
\<close>

record database =
  rows :: "uploaded_file list"
  next_id :: int

subsection \<open>The environment\<close>

text \<open>
  The exceptions that occur. \<open>OSError_ENAMETOOLONG\<close> is the plain \<^verbatim>\<open>OSError\<close> with errno 36;
  \<open>OSError\<close> stands for every other operating-system or database fault.
\<close>

datatype error =
    FileNotFoundError | NotADirectoryError | FileExistsError | IsADirectoryError
  | OSError_ENAMETOOLONG | OSError | ValueError | OverflowError

datatype 'a outcome = Returned 'a | Raised error

datatype node = File "byte list" | Dir

type_synonym filesystem = "string list \<Rightarrow> node option"

record world =
  fs :: filesystem
  cwd :: "string list"
  db :: database

text \<open>
  What a call draws from outside: the random bytes of \<^verbatim>\<open>uuid4\<close>, the clock,
  \<^verbatim>\<open>mimetypes.guess_type\<close> (which returns a type or \<^verbatim>\<open>None\<close>, or raises, as it does with
  \<^verbatim>\<open>ValueError\<close> on names its URL parser refuses), and the faults the operating system or
  the database may raise for reasons the model does not hold (full disk, permissions,
  lost connection). \<open>write_fault = Some k\<close> is a write that fails after \<open>k\<close> bytes.
\<close>

record env =
  urandom :: int
  utcnow :: int
  guess_type :: "string \<Rightarrow> string option outcome"
  mkdir_fault :: bool
  open_fault :: bool
  write_fault :: "nat option"
  commit_fault :: bool
  refresh_fault :: bool
  unlink_fault :: bool

text \<open>
  The limits of the file system: a component of more than \<open>NAME_MAX\<close> bytes, or a path
  string of \<open>PATH_MAX\<close> bytes or more, is refused with errno 36 (Linux: 255 and 4096).
  Strings are byte strings, as the operating system sees them.
\<close>

definition NAME_MAX :: nat where
  "NAME_MAX = 255"

definition PATH_MAX :: nat where
  "PATH_MAX = 4096"

fun join_sep :: "string list \<Rightarrow> string" where
  "join_sep [] = []"
| "join_sep [x] = x"
| "join_sep (x # y # ys) = x @ ''/'' @ join_sep (y # ys)"

text \<open>\<^verbatim>\<open>str(path)\<close>, the string handed to the operating system.\<close>

definition path_str :: "pure_path \<Rightarrow> string" where
  "path_str p =
     (if path_root p = [] \<and> path_tail p = [] then ''.''
      else path_root p @ join_sep (path_tail p))"

text \<open>
  Path resolution: from the root or the working directory, one component at a time.
  Every directory passed through must exist (\<^verbatim>\<open>ENOENT\<close> when it is missing, \<^verbatim>\<open>ENOTDIR\<close>
  when it is a regular file); \<^verbatim>\<open>'..'\<close> steps to the parent; a component longer than
  \<open>NAME_MAX\<close> is refused. The result is the location named, which itself may or may not
  exist.
\<close>

fun walk :: "filesystem \<Rightarrow> string list \<Rightarrow> string list \<Rightarrow> error + string list" where
  "walk f cur [] = Inr cur"
| "walk f cur (c # cs) =
     (case f cur of
        None \<Rightarrow> Inl FileNotFoundError
      | Some (File b) \<Rightarrow> Inl NotADirectoryError
      | Some Dir \<Rightarrow>
          if c = ''..'' then walk f (butlast cur) cs
          else if NAME_MAX < length c then Inl OSError_ENAMETOOLONG
          else walk f (cur @ [c]) cs)"

text \<open>
  A path with a NUL byte never reaches the operating system (\<^verbatim>\<open>ValueError\<close>: embedded
  null byte); an overlong path string is refused before any component is looked up.
\<close>

definition locate :: "world \<Rightarrow> pure_path \<Rightarrow> error + string list" where
  "locate w p =
     (if CHR 0x00 \<in> set (path_str p) then Inl ValueError
      else if PATH_MAX \<le> length (path_str p) then Inl OSError_ENAMETOOLONG
      else walk (fs w) (if path_root p = [] then cwd w else []) (path_tail p))"

text \<open>
  \<^verbatim>\<open>Path.exists()\<close> (pathlib up to Python 3.13): true for a regular file and for a
  directory alike; \<^verbatim>\<open>ENOENT\<close>, \<^verbatim>\<open>ENOTDIR\<close> and \<^verbatim>\<open>ValueError\<close> mean false; any other
  error of \<^verbatim>\<open>stat\<close> is raised again.
\<close>

definition path_exists :: "world \<Rightarrow> pure_path \<Rightarrow> bool outcome" where
  "path_exists w p =
     (case locate w p of
        Inl err \<Rightarrow>
          if err = FileNotFoundError \<or> err = NotADirectoryError \<or> err = ValueError
          then Returned False else Raised err
      | Inr loc \<Rightarrow> Returned (fs w loc \<noteq> None))"

text \<open>\<^verbatim>\<open>Path.read_bytes()\<close>; \<open>None\<close> when it raises.\<close>

definition read_bytes :: "world \<Rightarrow> pure_path \<Rightarrow> byte list option" where
  "read_bytes w p =
     (case locate w p of
        Inl err \<Rightarrow> None
      | Inr loc \<Rightarrow> (case fs w loc of Some (File b) \<Rightarrow> Some b | _ \<Rightarrow> None))"

text \<open>\<^verbatim>\<open>Path.mkdir(exist_ok=True)\<close>: an existing directory is accepted, an existing file is not.\<close>

definition mkdir_exist_ok :: "env \<Rightarrow> world \<Rightarrow> pure_path \<Rightarrow> error + world" where
  "mkdir_exist_ok e w p =
     (if mkdir_fault e then Inl OSError
      else (case locate w p of
              Inl err \<Rightarrow> Inl err
            | Inr loc \<Rightarrow>
                (case fs w loc of
                   None \<Rightarrow> Inr (w\<lparr>fs := (fs w)(loc \<mapsto> Dir)\<rparr>)
                 | Some Dir \<Rightarrow> Inr w
                 | Some (File b) \<Rightarrow> Inl FileExistsError)))"

text \<open>
  \<^verbatim>\<open>with open(p, "wb") as f: f.write(content)\<close>: opening fails when the path does not
  resolve (missing directory, overlong name, NUL byte) or names a directory, and
  otherwise creates or truncates the file; the world returned with an error is the one
  the exception handler sees.
\<close>

definition write_file :: "env \<Rightarrow> world \<Rightarrow> pure_path \<Rightarrow> byte list \<Rightarrow> error option \<times> world" where
  "write_file e w p content =
     (if open_fault e then (Some OSError, w)
      else (case locate w p of
              Inl err \<Rightarrow> (Some err, w)
            | Inr loc \<Rightarrow>
                (case fs w loc of
                   Some Dir \<Rightarrow> (Some IsADirectoryError, w)
                 | _ \<Rightarrow>
                    (case write_fault e of
                       None \<Rightarrow> (None, w\<lparr>fs := (fs w)(loc \<mapsto> File content)\<rparr>)
                     | Some k \<Rightarrow> (Some OSError, w\<lparr>fs := (fs w)(loc \<mapsto> File (take k content))\<rparr>)))))"

text \<open>\<^verbatim>\<open>Path.unlink()\<close>.\<close>

definition unlink :: "env \<Rightarrow> world \<Rightarrow> pure_path \<Rightarrow> error option \<times> world" where
  "unlink e w p =
     (if unlink_fault e then (Some OSError, w)
      else (case locate w p of
              Inl err \<Rightarrow> (Some err, w)
            | Inr loc \<Rightarrow>
                (case fs w loc of
                   None \<Rightarrow> (Some FileNotFoundError, w)
                 | Some Dir \<Rightarrow> (Some IsADirectoryError, w)
                 | Some (File b) \<Rightarrow> (None, w\<lparr>fs := (fs w)(loc := None)\<rparr>))))"

text \<open>
  \<^verbatim>\<open>session.add(r); session.commit()\<close>: the row gets the next primary key; a fault or a
  duplicate \<open>stored_filename\<close> raises and leaves the table as it was.
\<close>

definition session_commit :: "env \<Rightarrow> database \<Rightarrow> uploaded_file \<Rightarrow> (uploaded_file \<times> database) option" where
  "session_commit e d r =
     (if commit_fault e \<or> stored_filename r \<in> set (map stored_filename (rows d)) then None
      else (let row = r\<lparr>id_field := Some (next_id d)\<rparr>
            in Some (row, d\<lparr>rows := rows d @ [row], next_id := next_id d + 1\<rparr>)))"

subsection \<open>Floats, as far as \<^verbatim>\<open>format_file_size\<close> needs them\<close>

text \<open>
  A binary64 float is modelled by the rational it denotes. \<^verbatim>\<open>float(n)\<close> is exact below
  \<open>2 ^ 53\<close> and rounds to 53 significant bits, ties to even, above; dividing a float
  of at least 1024 by 1024 only lowers its exponent, so it is exact; and \<^verbatim>\<open>'.1f'\<close>
  prints the exact value rounded to one decimal, ties to even.
\<close>

fun bit_length :: "nat \<Rightarrow> nat" where
  "bit_length n = (if n = 0 then 0 else Suc (bit_length (n div 2)))"

declare bit_length.simps [simp del]

definition py_float :: "int \<Rightarrow> rat outcome" where
  "py_float n =
     (let a = nat \<bar>n\<bar>
      in if a < 2 ^ 53 then Returned (of_int n)
         else (let e = bit_length a - 53;
                   q = a div 2 ^ e;
                   r = a mod 2 ^ e;
                   h = 2 ^ (e - 1);
                   m = (if h < r \<or> (r = h \<and> odd q) then q + 1 else q);
                   v = m * 2 ^ e
               in if 2 ^ 1024 \<le> v then Raised OverflowError
                  else Returned (of_int (sgn n) * of_nat v)))"

definition format_1f :: "rat \<Rightarrow> string" where
  "format_1f x =
     (let t = \<bar>x\<bar> * 10;
          fl = \<lfloor>t\<rfloor>;
          fr = t - of_int fl;
          r = nat (if 1 / 2 < fr \<or> (fr = 1 / 2 \<and> odd fl) then fl + 1 else fl)
      in (if x < 0 then ''-'' else []) @ str_of_nat (r div 10) @ ''.'' @ str_of_nat (r mod 10))"

subsection \<open>app/file_service.py\<close>

definition UPLOADS_DIR :: pure_path where
  "UPLOADS_DIR = parse_path ''uploads''"

definition MAX_FILE_SIZE :: int where
  "MAX_FILE_SIZE = 300 * 1024 * 1024"

definition ensure_uploads_directory :: "env \<Rightarrow> world \<Rightarrow> error + world" where
  "ensure_uploads_directory e w = mkdir_exist_ok e w UPLOADS_DIR"

definition generate_unique_filename :: "env \<Rightarrow> string \<Rightarrow> string" where
  "generate_unique_filename e original =
     (let file_extension = suffix (parse_path original);
          unique_id = uuid_str (uuid4_int (urandom e))
      in unique_id @ file_extension)"

text \<open>The NiceGUI upload event: \<^verbatim>\<open>name\<close>, \<^verbatim>\<open>type\<close> and the bytes \<^verbatim>\<open>content.read()\<close> yields.\<close>

record upload_event =
  ev_name :: "string option"
  ev_type :: "string option"
  ev_content :: "byte list"

text \<open>The FastAPI \<^verbatim>\<open>UploadFile\<close>: \<^verbatim>\<open>filename\<close>, \<^verbatim>\<open>content_type\<close> and the bytes \<^verbatim>\<open>file.read()\<close> yields.\<close>

record upload_file =
  uf_filename :: "string option"
  uf_content_type :: "string option"
  uf_file :: "byte list"

text \<open>
  Both entry points return the row, or \<^verbatim>\<open>None\<close> for every rejection and every caught
  failure; an exception that escapes is \<open>Raised\<close>. \<open>on_exception\<close> is the
  \<^verbatim>\<open>except Exception\<close> block, entered with the world as the failing statement left it;
  what \<^verbatim>\<open>file_path.exists()\<close> or \<^verbatim>\<open>file_path.unlink()\<close> raise there escapes. The
  content type is the declared one if truthy, else the guessed one if truthy, else
  \<^verbatim>\<open>application/octet-stream\<close>; the guess is made only when the declared type is falsy.
\<close>

definition save_upload_event ::
  "env \<Rightarrow> world \<Rightarrow> upload_event \<Rightarrow> uploaded_file option outcome \<times> world" where
  "save_upload_event e w upload_event =
     (case ev_name upload_event of
        None \<Rightarrow> (Returned None, w)
      | Some nm \<Rightarrow>
          (let content = ev_content upload_event
           in if MAX_FILE_SIZE < int (length content) then (Returned None, w)
              else (case ensure_uploads_directory e w of
                      Inl err \<Rightarrow> (Raised err, w)
                    | Inr w1 \<Rightarrow>
                        (let stored = generate_unique_filename e nm;
                             file_path = path_div UPLOADS_DIR stored;
                             on_exception = (\<lambda>w'.
                               case path_exists w' file_path of
                                 Raised err \<Rightarrow> (Raised err, w')
                               | Returned True \<Rightarrow>
                                   (case unlink e w' file_path of
                                      (Some err, w'') \<Rightarrow> (Raised err, w'')
                                    | (None, w'') \<Rightarrow> (Returned None, w''))
                               | Returned False \<Rightarrow> (Returned None, w'))
                         in (case write_file e w1 file_path content of
                               (Some err, w2) \<Rightarrow> on_exception w2
                             | (None, w2) \<Rightarrow>
                                 (case (if truthy (ev_type upload_event)
                                        then Returned (the (ev_type upload_event))
                                        else (case guess_type e nm of
                                                Raised err \<Rightarrow> Raised err
                                              | Returned g \<Rightarrow>
                                                  Returned
                                                    (if truthy g then the g
                                                     else ''application/octet-stream''))) of
                                    Raised err \<Rightarrow> on_exception w2
                                  | Returned ctype \<Rightarrow>
                                      (let uploaded =
                                             \<lparr>id_field = None,
                                              original_filename = nm,
                                              stored_filename = stored,
                                              file_size = int (length content),
                                              content_type = ctype,
                                              upload_timestamp = utcnow e,
                                              public_url = ''/files/'' @ stored\<rparr>
                                       in (case session_commit e (db w2) uploaded of
                                             None \<Rightarrow> on_exception w2
                                           | Some (row, d) \<Rightarrow>
                                               if refresh_fault e
                                               then on_exception (w2\<lparr>db := d\<rparr>)
                                               else (Returned (Some row),
                                                     w2\<lparr>db := d\<rparr>)))))))))"

definition save_uploaded_file ::
  "env \<Rightarrow> world \<Rightarrow> upload_file \<Rightarrow> uploaded_file option outcome \<times> world" where
  "save_uploaded_file e w upload_file =
     (case uf_filename upload_file of
        None \<Rightarrow> (Returned None, w)
      | Some fname \<Rightarrow>
          (let content = uf_file upload_file
           in if MAX_FILE_SIZE < int (length content) then (Returned None, w)
              else (case ensure_uploads_directory e w of
                      Inl err \<Rightarrow> (Raised err, w)
                    | Inr w1 \<Rightarrow>
                        (let stored = generate_unique_filename e fname;
                             file_path = path_div UPLOADS_DIR stored;
                             on_exception = (\<lambda>w'.
                               case path_exists w' file_path of
                                 Raised err \<Rightarrow> (Raised err, w')
                               | Returned True \<Rightarrow>
                                   (case unlink e w' file_path of
                                      (Some err, w'') \<Rightarrow> (Raised err, w'')
                                    | (None, w'') \<Rightarrow> (Returned None, w''))
                               | Returned False \<Rightarrow> (Returned None, w'))
                         in (case write_file e w1 file_path content of
                               (Some err, w2) \<Rightarrow> on_exception w2
                             | (None, w2) \<Rightarrow>
                                 (case (if truthy (uf_content_type upload_file)
                                        then Returned (the (uf_content_type upload_file))
                                        else (case guess_type e fname of
                                                Raised err \<Rightarrow> Raised err
                                              | Returned g \<Rightarrow>
                                                  Returned
                                                    (if truthy g then the g
                                                     else ''application/octet-stream''))) of
                                    Raised err \<Rightarrow> on_exception w2
                                  | Returned ctype \<Rightarrow>
                                      (let uploaded =
                                             \<lparr>id_field = None,
                                              original_filename = fname,
                                              stored_filename = stored,
                                              file_size = int (length content),
                                              content_type = ctype,
                                              upload_timestamp = utcnow e,
                                              public_url = ''/files/'' @ stored\<rparr>
                                       in (case session_commit e (db w2) uploaded of
                                             None \<Rightarrow> on_exception w2
                                           | Some (row, d) \<Rightarrow>
                                               if refresh_fault e
                                               then on_exception (w2\<lparr>db := d\<rparr>)
                                               else (Returned (Some row),
                                                     w2\<lparr>db := d\<rparr>)))))))))"

definition get_file_path :: "world \<Rightarrow> string \<Rightarrow> pure_path option outcome" where
  "get_file_path w stored =
     (let file_path = path_div UPLOADS_DIR stored
      in (case path_exists w file_path of
            Raised err \<Rightarrow> Raised err
          | Returned True \<Rightarrow> Returned (Some file_path)
          | Returned False \<Rightarrow> Returned None))"

text \<open>
  Modelled from the spec: the engine that runs the query (\<^verbatim>\<open>app.database\<close> and the
  database behind it) is not among the sources. The specification's Metadata Store
  orders \<^verbatim>\<open>listAll\<close> by \<^verbatim>\<open>uploadedAt\<close> descending and breaks ties by insertion order
  (stable): a stable sort of the rows as inserted, by descending key.
\<close>

definition order_by_desc :: "('a \<Rightarrow> int) \<Rightarrow> 'a list \<Rightarrow> 'a list" where
  "order_by_desc key rs = sort_key (\<lambda>r. - key r) rs"

text \<open>\<^verbatim>\<open>select(UploadedFile).order_by(desc(UploadedFile.upload_timestamp))\<close>, all rows.\<close>

definition get_all_uploaded_files :: "world \<Rightarrow> uploaded_file list" where
  "get_all_uploaded_files w = order_by_desc upload_timestamp (rows (db w))"

definition size_names :: "string list" where
  "size_names = [''B'', ''KB'', ''MB'', ''GB'', ''TB'']"

function size_loop :: "rat \<Rightarrow> nat \<Rightarrow> rat \<times> nat" where
  "size_loop size_float i =
     (if 1024 \<le> size_float \<and> i < length size_names - 1
      then size_loop (size_float / 1024) (i + 1)
      else (size_float, i))"
  by pat_completeness auto
termination
  by (relation "measure (\<lambda>(size_float, i). 4 - i)") (auto simp: size_names_def)

declare size_loop.simps [simp del]

definition format_file_size :: "int \<Rightarrow> string outcome" where
  "format_file_size size_bytes =
     (if size_bytes = 0 then Returned ''0 B''
      else (case py_float size_bytes of
              Raised err \<Rightarrow> Raised err
            | Returned size_float0 \<Rightarrow>
                (let (size_float, i) = size_loop size_float0 0
                 in Returned (format_1f size_float @ '' '' @ size_names ! i))))"

subsection \<open>The specification's wording, for comparison\<close>

text \<open>
  The extension as the specification words it: the substring from the last dot of the
  whole filename on, the dot included; empty when there is no dot.
\<close>

definition spec_extension :: "string \<Rightarrow> string" where
  "spec_extension s = (let i = rfind CHR ''.'' s in if i < 0 then [] else drop (nat i) s)"


text \<open>The environment in which no step of an upload faults.\<close>

definition no_upload_faults :: "env \<Rightarrow> bool" where
  "no_upload_faults e =
     (\<not> mkdir_fault e \<and> \<not> open_fault e \<and> write_fault e = None \<and>
      \<not> commit_fault e \<and> \<not> refresh_fault e)"

text \<open>
  The storage is ready when the working directory exists and \<^verbatim>\<open>uploads\<close> is a
  directory or can be created (it is not a regular file).
\<close>

definition storage_ready :: "world \<Rightarrow> bool" where
  "storage_ready w =
     (fs w (cwd w) = Some Dir \<and>
      (case fs w (cwd w @ [''uploads'']) of Some (File b) \<Rightarrow> False | _ \<Rightarrow> True))"

text \<open>
  A stored name can be written when the file system takes it as a file name (at most
  \<open>NAME_MAX\<close> bytes, no NUL byte) and no directory of that name sits in \<^verbatim>\<open>uploads\<close>.
\<close>

definition blob_writable :: "world \<Rightarrow> string \<Rightarrow> bool" where
  "blob_writable w st =
     (length st \<le> NAME_MAX \<and> CHR 0x00 \<notin> set st \<and>
      fs w (cwd w @ [''uploads'', st]) \<noteq> Some Dir)"

text \<open>
  The content type resolves when the declared type is truthy or the guess from the
  filename does not raise.
\<close>

definition content_type_resolves :: "env \<Rightarrow> string option \<Rightarrow> string \<Rightarrow> bool" where
  "content_type_resolves e declared nm =
     (truthy declared \<or> (case guess_type e nm of Returned g \<Rightarrow> True | Raised err \<Rightarrow> False))"

text \<open>A stored name is in the table when some row carries it.\<close>

definition name_in_table :: "world \<Rightarrow> string \<Rightarrow> bool" where
  "name_in_table w st = (st \<in> set (map stored_filename (rows (db w))))"

subsection \<open>Concrete environments and worlds\<close>

definition env0 :: env where
  "env0 =
     \<lparr>urandom = 0, utcnow = 1700000000,
      guess_type = (\<lambda>n. Returned (if endswith n ''.txt'' then Some ''text/plain'' else None)),
      mkdir_fault = False, open_fault = False, write_fault = None,
      commit_fault = False, refresh_fault = False, unlink_fault = False\<rparr>"

definition fs0 :: filesystem where
  "fs0 =
     Map.empty
      ([] \<mapsto> Dir,
      [''etc''] \<mapsto> Dir,
      [''etc'', ''passwd''] \<mapsto> File [114, 111, 111, 116],
      [''srv''] \<mapsto> Dir,
      [''srv'', ''secret.txt''] \<mapsto> File [107, 101, 121])"

text \<open>A fresh deployment: no uploads directory yet, an empty table.\<close>

definition w0 :: world where
  "w0 = \<lparr>fs = fs0, cwd = [''srv''], db = \<lparr>rows = [], next_id = 1\<rparr>\<rparr>"

text \<open>A deployment with the uploads directory, a subdirectory in it, and one upload.\<close>

definition row1 :: uploaded_file where
  "row1 =
     \<lparr>id_field = Some 1, original_filename = ''old.txt'',
      stored_filename = ''00000000-0000-4000-8000-000000000000.txt'',
      file_size = 3, content_type = ''text/plain'', upload_timestamp = 1600000000,
      public_url = ''/files/00000000-0000-4000-8000-000000000000.txt''\<rparr>"

definition w1 :: world where
  "w1 =
     \<lparr>fs = fs0([''srv'', ''uploads''] \<mapsto> Dir,
               [''srv'', ''uploads'', ''thumbs''] \<mapsto> Dir,
               [''srv'', ''uploads'', ''00000000-0000-4000-8000-000000000000.txt'']
                 \<mapsto> File [111, 108, 100]),
      cwd = [''srv''],
      db = \<lparr>rows = [row1], next_id = 2\<rparr>\<rparr>"

text \<open>
  Rows for the listing: \<open>rowA\<close> and \<open>rowB\<close> carry the same timestamp; \<open>rowA\<close>,
  \<open>rowD\<close>, \<open>rowC\<close> carry increasing ones.
\<close>

definition rowA :: uploaded_file where
  "rowA =
     \<lparr>id_field = Some 1, original_filename = ''a.txt'', stored_filename = ''a'',
      file_size = 1, content_type = ''text/plain'', upload_timestamp = 1700000000,
      public_url = ''/files/a''\<rparr>"

definition rowB :: uploaded_file where
  "rowB =
     \<lparr>id_field = Some 2, original_filename = ''b.txt'', stored_filename = ''b'',
      file_size = 1, content_type = ''text/plain'', upload_timestamp = 1700000000,
      public_url = ''/files/b''\<rparr>"

definition rowC :: uploaded_file where
  "rowC =
     \<lparr>id_field = Some 3, original_filename = ''c.txt'', stored_filename = ''c'',
      file_size = 1, content_type = ''text/plain'', upload_timestamp = 1700000007,
      public_url = ''/files/c''\<rparr>"

definition rowD :: uploaded_file where
  "rowD =
     \<lparr>id_field = Some 2, original_filename = ''d.txt'', stored_filename = ''d'',
      file_size = 1, content_type = ''text/plain'', upload_timestamp = 1700000003,
      public_url = ''/files/d''\<rparr>"

definition w_ties :: world where
  "w_ties = \<lparr>fs = fs0, cwd = [''srv''], db = \<lparr>rows = [rowA, rowB], next_id = 3\<rparr>\<rparr>"

definition w_abc :: world where
  "w_abc = \<lparr>fs = fs0, cwd = [''srv''], db = \<lparr>rows = [rowA, rowD, rowC], next_id = 4\<rparr>\<rparr>"

definition upload0 :: upload_file where
  "upload0 =
     \<lparr>uf_filename = Some ''test.txt'', uf_content_type = Some ''text/plain'',
      uf_file = [72, 101, 108, 108, 111]\<rparr>"

definition event0 :: upload_event where
  "event0 =
     \<lparr>ev_name = Some ''test.txt'', ev_type = Some ''text/plain'',
      ev_content = [72, 101, 108, 108, 111]\<rparr>"

definition upload_large :: upload_file where
  "upload_large =
     \<lparr>uf_filename = Some ''large.txt'', uf_content_type = Some ''text/plain'',
      uf_file = replicate 314572801 120\<rparr>"

definition upload_empty_name :: upload_file where
  "upload_empty_name =
     \<lparr>uf_filename = Some [], uf_content_type = Some ''text/plain'', uf_file = [104, 105]\<rparr>"

definition upload_absent_name :: upload_file where
  "upload_absent_name =
     \<lparr>uf_filename = None, uf_content_type = Some ''text/plain'', uf_file = [104, 105]\<rparr>"

definition event_absent_name :: upload_event where
  "event_absent_name =
     \<lparr>ev_name = None, ev_type = Some ''text/plain'', ev_content = [104, 105]\<rparr>"

text \<open>
  A filename of 221 characters, within the 255 the table allows: \<^verbatim>\<open>a.\<close> followed by 219
  times \<^verbatim>\<open>b\<close>. Its extension has 220 characters, the stored name 256.
\<close>

definition upload_long_name :: upload_file where
  "upload_long_name =
     \<lparr>uf_filename = Some (''a.'' @ replicate 219 CHR ''b''),
      uf_content_type = Some ''text/plain'', uf_file = [104, 105]\<rparr>"

text \<open>A second draw of random bytes, and the row it produces in \<open>w1\<close>.\<close>

definition env1 :: env where
  "env1 = env0\<lparr>urandom := 1\<rparr>"

definition row2 :: uploaded_file where
  "row2 =
     \<lparr>id_field = Some 2, original_filename = ''test.txt'',
      stored_filename = ''00000000-0000-4000-8000-000000000001.txt'',
      file_size = 5, content_type = ''text/plain'', upload_timestamp = 1700000000,
      public_url = ''/files/00000000-0000-4000-8000-000000000001.txt''\<rparr>"

text \<open>A filename whose extension holds a NUL byte.\<close>

definition upload_nul_name :: upload_file where
  "upload_nul_name =
     \<lparr>uf_filename = Some [CHR ''a'', CHR ''.'', CHR 0x00, CHR ''b''],
      uf_content_type = Some ''text/plain'', uf_file = [104, 105]\<rparr>"

text \<open>
  An upload without a declared type whose filename the MIME guess refuses, and an
  environment in which \<^verbatim>\<open>mimetypes.guess_type\<close> raises on that name.
\<close>

definition upload_bad_guess :: upload_file where
  "upload_bad_guess =
     \<lparr>uf_filename = Some ''//[x.txt'', uf_content_type = None, uf_file = [104, 105]\<rparr>"

definition env_guess_raises :: env where
  "env_guess_raises =
     env0\<lparr>guess_type := (\<lambda>n. if n = ''//[x.txt'' then Raised ValueError else Returned None)\<rparr>"

definition env_commit_fault :: env where
  "env_commit_fault = env0\<lparr>commit_fault := True\<rparr>"

section \<open>Properties\<close>

subsection \<open>Strings, paths and generated names\<close>

lemma uuid0: "uuid_str (uuid4_int 0) = ''00000000-0000-4000-8000-000000000000''"
  by code_simp

lemma split_on_no_sep: "c \<notin> set s \<Longrightarrow> split_on c s = [s]"
  by (induction s) auto

lemma split_on_nonempty: "split_on c s \<noteq> []"
  by (induction s) (auto split: list.splits)

lemma split_on_parts: "x \<in> set (split_on c s) \<Longrightarrow> c \<notin> set x"
proof (induction s arbitrary: x)
  case Nil
  then show ?case by simp
next
  case (Cons a s)
  show ?case
  proof (cases "a = c")
    case True
    with Cons show ?thesis by auto
  next
    case False
    obtain w ws where ws: "split_on c s = w # ws"
      using split_on_nonempty [of c s] by (cases "split_on c s") auto
    with Cons.prems False have "x = a # w \<or> x \<in> set ws" by auto
    then show ?thesis
    proof
      assume "x = a # w"
      moreover have "c \<notin> set w" using Cons.IH [of w] ws by simp
      ultimately show ?thesis using False by auto
    next
      assume "x \<in> set ws"
      then show ?thesis using Cons.IH [of x] ws by simp
    qed
  qed
qed

lemma splitroot_rel: "take 1 s \<noteq> ''/'' \<Longrightarrow> splitroot s = ([], s)"
  by (simp add: splitroot_def)

lemma splitroot_snd_set: "set (snd (splitroot s)) \<subseteq> set s"
  by (auto simp: splitroot_def dest: in_set_dropD)

lemma parse_tail_parts: "x \<in> set (path_tail (parse_path s)) \<Longrightarrow> CHR ''/'' \<notin> set x"
  by (auto simp: parse_path_def split: prod.splits dest: split_on_parts)

lemma name_no_slash: "CHR ''/'' \<notin> set (name (parse_path s))"
proof (cases "path_tail (parse_path s) = []")
  case True
  then show ?thesis by (simp add: name_def)
next
  case False
  then have "last (path_tail (parse_path s)) \<in> set (path_tail (parse_path s))" by simp
  then have "CHR ''/'' \<notin> set (last (path_tail (parse_path s)))" by (rule parse_tail_parts)
  then show ?thesis using False by (simp add: name_def)
qed

lemma suffix_subset: "set (suffix p) \<subseteq> set (name p)"
  by (auto simp: suffix_def Let_def dest: in_set_dropD)

lemma suffix_no_slash: "CHR ''/'' \<notin> set (suffix (parse_path s))"
  using suffix_subset [of "parse_path s"] name_no_slash [of s] by blast

lemma parse_simple:
  assumes "s \<noteq> []" and "s \<noteq> ''.''" and "CHR ''/'' \<notin> set s"
  shows "parse_path s = \<lparr>path_root = [], path_tail = [s]\<rparr>"
proof -
  have "take 1 s \<noteq> ''/''" using assms by (cases s) auto
  then show ?thesis using assms by (simp add: parse_path_def splitroot_rel split_on_no_sep)
qed

lemma hexdigit_in: "hexdigit d \<in> set ''0123456789abcdef''"
  unfolding hexdigit_def by (rule nth_mem) simp

lemma hex32_not:
  assumes "c \<notin> set ''0123456789abcdef''"
  shows "c \<notin> set (hex32 n)"
proof
  assume "c \<in> set (hex32 n)"
  then obtain k where "c = hexdigit k" by (auto simp: hex32_def)
  with hexdigit_in [of k] assms show False by blast
qed

lemma hex32_length: "length (hex32 n) = 32"
  by (simp add: hex32_def)

lemma uuid_str_length: "length (uuid_str n) = 36"
  by (simp add: uuid_str_def Let_def hex32_length)

lemma uuid_str_not:
  assumes "c \<notin> set ''0123456789abcdef''" and "c \<noteq> CHR ''-''"
  shows "c \<notin> set (uuid_str n)"
proof
  assume "c \<in> set (uuid_str n)"
  then have "c \<in> set (hex32 n) \<or> c = CHR ''-''"
    unfolding uuid_str_def Let_def set_append
    by (auto dest: in_set_takeD in_set_dropD)
  with assms hex32_not [of c n] show False by blast
qed

lemma uuid_str_no_slash: "CHR ''/'' \<notin> set (uuid_str n)"
  by (rule uuid_str_not) simp_all

lemma uuid_str_no_dot: "CHR ''.'' \<notin> set (uuid_str n)"
  by (rule uuid_str_not) simp_all

lemma stored_length: "36 \<le> length (generate_unique_filename e s)"
  by (simp add: generate_unique_filename_def Let_def uuid_str_length)

lemma stored_no_slash: "CHR ''/'' \<notin> set (generate_unique_filename e s)"
  by (simp add: generate_unique_filename_def Let_def uuid_str_no_slash suffix_no_slash)

lemma UPLOADS_DIR_eq: "UPLOADS_DIR = \<lparr>path_root = [], path_tail = [''uploads'']\<rparr>"
  by (simp add: UPLOADS_DIR_def parse_path_def splitroot_def)

lemma stored_path:
  "path_div UPLOADS_DIR (generate_unique_filename e s) =
   \<lparr>path_root = [], path_tail = [''uploads'', generate_unique_filename e s]\<rparr>"
proof -
  let ?st = "generate_unique_filename e s"
  have len: "36 \<le> length ?st" by (rule stored_length)
  then have "?st \<noteq> []" and "?st \<noteq> ''.''" by auto
  then have "parse_path ?st = \<lparr>path_root = [], path_tail = [?st]\<rparr>"
    using stored_no_slash by (rule parse_simple)
  then show ?thesis by (simp add: path_div_def UPLOADS_DIR_eq)
qed

lemma stored_path_str:
  "path_str \<lparr>path_root = [], path_tail = [''uploads'', st]\<rparr> = ''uploads/'' @ st"
  by (simp add: path_str_def)

lemma stored_locate:
  assumes "fs w (cwd w) = Some Dir" and "fs w (cwd w @ [''uploads'']) = Some Dir"
    and "length (generate_unique_filename e s) \<le> NAME_MAX"
    and "CHR 0x00 \<notin> set (generate_unique_filename e s)"
  shows "locate w (path_div UPLOADS_DIR (generate_unique_filename e s)) =
         Inr (cwd w @ [''uploads'', generate_unique_filename e s])"
proof -
  have "36 \<le> length (generate_unique_filename e s)" by (rule stored_length)
  then have "generate_unique_filename e s \<noteq> ''..''" by auto
  then show ?thesis
    using assms by (simp add: stored_path locate_def stored_path_str NAME_MAX_def PATH_MAX_def)
qed

lemma stored_locate_too_long:
  assumes "fs w (cwd w) = Some Dir" and "fs w (cwd w @ [''uploads'']) = Some Dir"
    and "NAME_MAX < length (generate_unique_filename e s)"
    and "CHR 0x00 \<notin> set (generate_unique_filename e s)"
  shows "locate w (path_div UPLOADS_DIR (generate_unique_filename e s)) =
         Inl OSError_ENAMETOOLONG"
proof -
  have "generate_unique_filename e s \<noteq> ''..''" using assms(3) by (auto simp: NAME_MAX_def)
  then show ?thesis
    using assms by (simp add: stored_path locate_def stored_path_str NAME_MAX_def PATH_MAX_def)
qed

lemma rfind_notin: "c \<notin> set s \<Longrightarrow> rfind c s = - 1"
  by (induction s) (auto simp: Let_def)

lemma rfind_append_notin: "c \<notin> set u \<Longrightarrow> rfind c (t @ u) = rfind c t"
  by (induction t) (auto simp: Let_def rfind_notin)

lemma rfind_in: "c \<in> set s \<Longrightarrow> 0 \<le> rfind c s"
  by (induction s) (auto simp: Let_def)

lemma rfind_append_in: "c \<in> set u \<Longrightarrow> rfind c (t @ u) = int (length t) + rfind c u"
  by (induction t) (auto simp: Let_def dest: rfind_in)

lemma rfind_drop: "0 \<le> rfind c s \<Longrightarrow> rfind c (drop (nat (rfind c s)) s) = 0"
proof (induction s)
  case Nil
  then show ?case by simp
next
  case (Cons x xs)
  show ?case
  proof (cases "0 \<le> rfind c xs")
    case True
    then have "rfind c (x # xs) = rfind c xs + 1" by (simp add: Let_def)
    moreover have "nat (rfind c xs + 1) = Suc (nat (rfind c xs))" using True by simp
    ultimately show ?thesis using Cons.IH True by simp
  next
    case False
    with Cons.prems have "x = c" and "rfind c (x # xs) = 0"
      by (auto simp: Let_def split: if_splits)
    then show ?thesis using False by (simp add: Let_def)
  qed
qed

lemma split_on_subset: "x \<in> set (split_on c s) \<Longrightarrow> set x \<subseteq> set s"
proof (induction s arbitrary: x)
  case Nil
  then show ?case by simp
next
  case (Cons a s)
  show ?case
  proof (cases "a = c")
    case True
    with Cons show ?thesis by auto
  next
    case False
    obtain w ws where ws: "split_on c s = w # ws"
      using split_on_nonempty [of c s] by (cases "split_on c s") auto
    with Cons.prems False have "x = a # w \<or> x \<in> set ws" by auto
    then show ?thesis
    proof
      assume "x = a # w"
      moreover have "set w \<subseteq> set s" using Cons.IH [of w] ws by simp
      ultimately show ?thesis by auto
    next
      assume "x \<in> set ws"
      then have "set x \<subseteq> set s" using Cons.IH [of x] ws by simp
      then show ?thesis by auto
    qed
  qed
qed

lemma name_subset: "set (name (parse_path s)) \<subseteq> set s"
proof (cases "path_tail (parse_path s) = []")
  case True
  then show ?thesis by (simp add: name_def)
next
  case False
  then have "last (path_tail (parse_path s)) \<in> set (path_tail (parse_path s))" by simp
  then have "last (path_tail (parse_path s)) \<in> set (split_on CHR ''/'' (snd (splitroot s)))"
    by (auto simp: parse_path_def split: prod.splits)
  then have "set (last (path_tail (parse_path s))) \<subseteq> set (snd (splitroot s))"
    by (rule split_on_subset)
  then show ?thesis using False splitroot_snd_set [of s] by (auto simp: name_def)
qed

lemma suffix_shape:
  "suffix p = [] \<or> (2 \<le> length (suffix p) \<and> rfind CHR ''.'' (suffix p) = 0)"
proof (cases "0 < rfind CHR ''.'' (name p) \<and> rfind CHR ''.'' (name p) < int (length (name p)) - 1")
  case True
  then have eq: "suffix p = drop (nat (rfind CHR ''.'' (name p))) (name p)"
    by (simp add: suffix_def Let_def)
  have "rfind CHR ''.'' (suffix p) = 0" unfolding eq using True by (intro rfind_drop) simp
  moreover have "2 \<le> length (suffix p)"
    unfolding eq using True by (cases "rfind CHR ''.'' (name p)") auto
  ultimately show ?thesis by simp
next
  case False
  then show ?thesis by (auto simp: suffix_def Let_def)
qed

lemma suffix_of_stored: "suffix (parse_path (uuid_str n @ ext)) = ext"
  if "ext = [] \<or> (2 \<le> length ext \<and> rfind CHR ''.'' ext = 0)" and "CHR ''/'' \<notin> set ext"
proof -
  let ?st = "uuid_str n @ ext"
  have len: "length (uuid_str n) = 36" by (rule uuid_str_length)
  then have "?st \<noteq> []" by auto
  moreover have "?st \<noteq> ''.''"
  proof
    assume a: "?st = ''.''"
    have "length ?st = length ''.''" by (simp only: a)
    then show False using len by simp
  qed
  moreover have "CHR ''/'' \<notin> set ?st" using that(2) uuid_str_no_slash by simp
  ultimately have "parse_path ?st = \<lparr>path_root = [], path_tail = [?st]\<rparr>" by (rule parse_simple)
  then have nm: "name (parse_path ?st) = ?st" by (simp add: name_def)
  from that(1) show ?thesis
  proof
    assume e: "ext = []"
    have nm': "name (parse_path (uuid_str n)) = uuid_str n" using nm e by simp
    have "rfind CHR ''.'' (uuid_str n) = - 1" using uuid_str_no_dot by (rule rfind_notin)
    then show ?thesis using e by (simp add: suffix_def nm' Let_def)
  next
    assume e: "2 \<le> length ext \<and> rfind CHR ''.'' ext = 0"
    then have "CHR ''.'' \<in> set ext" using rfind_notin [of "CHR ''.''" ext] by force
    then have "rfind CHR ''.'' ?st = 36" using e len by (simp add: rfind_append_in)
    then show ?thesis using e len by (simp add: suffix_def nm Let_def)
  qed
qed

lemma stored_name_test_txt:
  "generate_unique_filename env0 ''test.txt'' = ''00000000-0000-4000-8000-000000000000.txt''"
  by (simp add: generate_unique_filename_def uuid0 env0_def suffix_def name_def parse_path_def
      splitroot_def)

lemma stored_name_empty:
  "generate_unique_filename env0 [] = ''00000000-0000-4000-8000-000000000000''"
  by (simp add: generate_unique_filename_def uuid0 env0_def suffix_def name_def parse_path_def
      splitroot_def)

lemma uuid1: "uuid_str (uuid4_int 1) = ''00000000-0000-4000-8000-000000000001''"
  by code_simp

lemma stored_name_env1:
  "generate_unique_filename env1 ''test.txt'' = ''00000000-0000-4000-8000-000000000001.txt''"
  by (simp add: generate_unique_filename_def uuid1 env1_def env0_def suffix_def name_def
      parse_path_def splitroot_def)

lemma stored_name_commit_fault:
  "generate_unique_filename env_commit_fault s = generate_unique_filename env0 s"
  by (simp add: generate_unique_filename_def env_commit_fault_def env0_def)

lemma stored_name_nul:
  "generate_unique_filename env0 [CHR ''a'', CHR ''.'', CHR 0x00, CHR ''b''] =
   ''00000000-0000-4000-8000-000000000000'' @ [CHR ''.'', CHR 0x00, CHR ''b'']"
  by (simp add: generate_unique_filename_def uuid0 env0_def suffix_def name_def parse_path_def
      splitroot_def)

lemma stored_name_bad_guess:
  "generate_unique_filename env_guess_raises ''//[x.txt'' =
   ''00000000-0000-4000-8000-000000000000.txt''"
  by (simp add: generate_unique_filename_def uuid0 env_guess_raises_def env0_def suffix_def
      name_def parse_path_def splitroot_def)

lemma stored_name_long:
  "generate_unique_filename env0 (''a.'' @ replicate 219 CHR ''b'') =
   ''00000000-0000-4000-8000-000000000000.'' @ replicate 219 CHR ''b''"
proof -
  let ?bs = "replicate 219 CHR ''b''"
  let ?s = "''a.'' @ ?bs"
  have nd: "CHR ''.'' \<notin> set ?bs" by simp
  have "parse_path ?s = \<lparr>path_root = [], path_tail = [?s]\<rparr>"
    by (rule parse_simple) simp_all
  then have nm: "name (parse_path ?s) = ?s" by (simp add: name_def)
  have rf: "rfind CHR ''.'' ?s = 1"
    using rfind_append_notin [OF nd, of "''a.''"] by (simp add: Let_def)
  have "suffix (parse_path ?s) = ''.'' @ ?bs"
    unfolding suffix_def nm Let_def rf by simp
  then show ?thesis
    by (simp add: generate_unique_filename_def Let_def env0_def uuid0)
qed

lemma get_file_path_stored:
  assumes "fs w (cwd w) = Some Dir" and "fs w (cwd w @ [''uploads'']) = Some Dir"
    and "length (generate_unique_filename e s) \<le> NAME_MAX"
    and "CHR 0x00 \<notin> set (generate_unique_filename e s)"
  shows "get_file_path w (generate_unique_filename e s) =
           Returned (if fs w (cwd w @ [''uploads'', generate_unique_filename e s]) = None then None
                     else Some (path_div UPLOADS_DIR (generate_unique_filename e s)))"
    and "read_bytes w (path_div UPLOADS_DIR (generate_unique_filename e s)) =
           (case fs w (cwd w @ [''uploads'', generate_unique_filename e s]) of
              Some (File b) \<Rightarrow> Some b | _ \<Rightarrow> None)"
  using stored_locate [OF assms]
  by (simp_all add: get_file_path_def path_exists_def read_bytes_def)


subsection \<open>What an upload does to the world\<close>

lemma ensure_ok:
  assumes "\<not> mkdir_fault e" and "storage_ready w"
  shows "ensure_uploads_directory e w = Inr (w\<lparr>fs := (fs w)(cwd w @ [''uploads''] \<mapsto> Dir)\<rparr>)"
proof -
  have loc: "locate w UPLOADS_DIR = Inr (cwd w @ [''uploads''])"
    using assms
    by (simp add: locate_def UPLOADS_DIR_eq storage_ready_def path_str_def NAME_MAX_def
        PATH_MAX_def)
  show ?thesis
  proof (cases "fs w (cwd w @ [''uploads''])")
    case None
    then show ?thesis using assms loc
      by (simp add: ensure_uploads_directory_def mkdir_exist_ok_def)
  next
    case (Some nd)
    with assms have nd: "nd = Dir" by (cases nd) (auto simp: storage_ready_def)
    have "(fs w)(cwd w @ [''uploads''] \<mapsto> Dir) = fs w"
      using Some nd by (simp add: fun_upd_idem)
    then show ?thesis using assms loc Some nd
      by (simp add: ensure_uploads_directory_def mkdir_exist_ok_def)
  qed
qed

lemma save_uploaded_file_success:
  assumes fn: "uf_filename u = Some fname"
    and sz: "int (length (uf_file u)) \<le> MAX_FILE_SIZE"
    and nf: "no_upload_faults e"
    and rd: "storage_ready w"
    and bw: "blob_writable w (generate_unique_filename e fname)"
    and nt: "\<not> name_in_table w (generate_unique_filename e fname)"
    and ct: "truthy (uf_content_type u) \<or> guess_type e fname = Returned g"
  shows "save_uploaded_file e w u =
    (Returned (Some
       \<lparr>id_field = Some (next_id (db w)),
        original_filename = fname,
        stored_filename = generate_unique_filename e fname,
        file_size = int (length (uf_file u)),
        content_type =
          (if truthy (uf_content_type u) then the (uf_content_type u)
           else if truthy g then the g
           else ''application/octet-stream''),
        upload_timestamp = utcnow e,
        public_url = ''/files/'' @ generate_unique_filename e fname\<rparr>),
     w\<lparr>fs := (fs w)(cwd w @ [''uploads''] \<mapsto> Dir,
                    cwd w @ [''uploads'', generate_unique_filename e fname] \<mapsto> File (uf_file u)),
       db := (db w)\<lparr>rows := rows (db w) @
           [\<lparr>id_field = Some (next_id (db w)),
             original_filename = fname,
             stored_filename = generate_unique_filename e fname,
             file_size = int (length (uf_file u)),
             content_type =
               (if truthy (uf_content_type u) then the (uf_content_type u)
                else if truthy g then the g
                else ''application/octet-stream''),
             upload_timestamp = utcnow e,
             public_url = ''/files/'' @ generate_unique_filename e fname\<rparr>],
          next_id := next_id (db w) + 1\<rparr>\<rparr>)"
proof -
  let ?st = "generate_unique_filename e fname"
  let ?w1 = "w\<lparr>fs := (fs w)(cwd w @ [''uploads''] \<mapsto> Dir)\<rparr>"
  have ens: "ensure_uploads_directory e w = Inr ?w1"
    using nf rd by (simp add: ensure_ok no_upload_faults_def)
  have cw: "fs w (cwd w) = Some Dir" using rd by (simp add: storage_ready_def)
  have loc: "locate ?w1 (path_div UPLOADS_DIR ?st) = Inr (cwd w @ [''uploads'', ?st])"
    using cw bw stored_locate [of ?w1 e fname] by (simp add: blob_writable_def)
  have wr: "write_file e ?w1 (path_div UPLOADS_DIR ?st) (uf_file u) =
      (None, ?w1\<lparr>fs := (fs ?w1)(cwd w @ [''uploads'', ?st] \<mapsto> File (uf_file u))\<rparr>)"
    using nf bw
    by (simp add: write_file_def loc no_upload_faults_def blob_writable_def
        split: option.splits node.splits)
  from ct show ?thesis
  proof
    assume "truthy (uf_content_type u)"
    then show ?thesis
      using fn sz nf nt
      by (simp add: save_uploaded_file_def ens wr Let_def session_commit_def
          no_upload_faults_def name_in_table_def)
  next
    assume "guess_type e fname = Returned g"
    then show ?thesis
      using fn sz nf nt
      by (simp add: save_uploaded_file_def ens wr Let_def session_commit_def
          no_upload_faults_def name_in_table_def)
  qed
qed

lemma save_uploaded_file_insert_failure:
  assumes fn: "uf_filename u = Some fname"
    and sz: "int (length (uf_file u)) \<le> MAX_FILE_SIZE"
    and io: "\<not> mkdir_fault e" "\<not> open_fault e" "write_fault e = None" "\<not> unlink_fault e"
    and rd: "storage_ready w"
    and bw: "blob_writable w (generate_unique_filename e fname)"
    and ins: "commit_fault e \<or> name_in_table w (generate_unique_filename e fname)"
  shows "save_uploaded_file e w u =
    (Returned None,
     w\<lparr>fs := (fs w)(cwd w @ [''uploads''] \<mapsto> Dir,
                    cwd w @ [''uploads'', generate_unique_filename e fname] := None)\<rparr>)"
proof -
  let ?st = "generate_unique_filename e fname"
  let ?w1 = "w\<lparr>fs := (fs w)(cwd w @ [''uploads''] \<mapsto> Dir)\<rparr>"
  let ?w2 = "w\<lparr>fs := (fs w)(cwd w @ [''uploads''] \<mapsto> Dir,
                  cwd w @ [''uploads'', ?st] \<mapsto> File (uf_file u))\<rparr>"
  have ens: "ensure_uploads_directory e w = Inr ?w1"
    using io rd by (simp add: ensure_ok)
  have cw: "fs w (cwd w) = Some Dir" using rd by (simp add: storage_ready_def)
  have loc1: "locate ?w1 (path_div UPLOADS_DIR ?st) = Inr (cwd w @ [''uploads'', ?st])"
    using cw bw stored_locate [of ?w1 e fname] by (simp add: blob_writable_def)
  have loc2: "locate ?w2 (path_div UPLOADS_DIR ?st) = Inr (cwd w @ [''uploads'', ?st])"
    using cw bw stored_locate [of ?w2 e fname] by (simp add: blob_writable_def)
  have wr: "write_file e ?w1 (path_div UPLOADS_DIR ?st) (uf_file u) = (None, ?w2)"
    using io bw
    by (simp add: write_file_def loc1 blob_writable_def split: option.splits node.splits)
  have ex: "path_exists ?w2 (path_div UPLOADS_DIR ?st) = Returned True"
    by (simp add: path_exists_def loc2)
  have ul: "unlink e ?w2 (path_div UPLOADS_DIR ?st) =
      (None, w\<lparr>fs := (fs w)(cwd w @ [''uploads''] \<mapsto> Dir, cwd w @ [''uploads'', ?st] := None)\<rparr>)"
    using io by (simp add: unlink_def loc2)
  have cm: "session_commit e (db w) r = None" if "stored_filename r = ?st" for r
    using ins that by (auto simp: session_commit_def name_in_table_def)
  show ?thesis
    using fn sz
    by (simp add: save_uploaded_file_def ens wr ex ul cm Let_def split: outcome.splits)
qed

lemma save_uploaded_file_name_too_long:
  assumes fn: "uf_filename u = Some fname"
    and sz: "int (length (uf_file u)) \<le> MAX_FILE_SIZE"
    and io: "\<not> mkdir_fault e" "\<not> open_fault e"
    and rd: "storage_ready w"
    and long: "NAME_MAX < length (generate_unique_filename e fname)"
    and nul: "CHR 0x00 \<notin> set (generate_unique_filename e fname)"
  shows "save_uploaded_file e w u =
    (Raised OSError_ENAMETOOLONG, w\<lparr>fs := (fs w)(cwd w @ [''uploads''] \<mapsto> Dir)\<rparr>)"
proof -
  let ?st = "generate_unique_filename e fname"
  let ?w1 = "w\<lparr>fs := (fs w)(cwd w @ [''uploads''] \<mapsto> Dir)\<rparr>"
  have ens: "ensure_uploads_directory e w = Inr ?w1"
    using io rd by (simp add: ensure_ok)
  have cw: "fs w (cwd w) = Some Dir" using rd by (simp add: storage_ready_def)
  have loc: "locate ?w1 (path_div UPLOADS_DIR ?st) = Inl OSError_ENAMETOOLONG"
    using cw long nul stored_locate_too_long [of ?w1 e fname] by simp
  have wr: "write_file e ?w1 (path_div UPLOADS_DIR ?st) (uf_file u) =
      (Some OSError_ENAMETOOLONG, ?w1)"
    using io by (simp add: write_file_def loc)
  have ex: "path_exists ?w1 (path_div UPLOADS_DIR ?st) = Raised OSError_ENAMETOOLONG"
    by (simp add: path_exists_def loc)
  show ?thesis
    using fn sz by (simp add: save_uploaded_file_def ens wr ex Let_def)
qed

lemma save_uploaded_file_nul:
  assumes fn: "uf_filename u = Some fname"
    and sz: "int (length (uf_file u)) \<le> MAX_FILE_SIZE"
    and io: "\<not> mkdir_fault e" "\<not> open_fault e"
    and rd: "storage_ready w"
    and nul: "CHR 0x00 \<in> set (generate_unique_filename e fname)"
  shows "save_uploaded_file e w u =
    (Returned None, w\<lparr>fs := (fs w)(cwd w @ [''uploads''] \<mapsto> Dir)\<rparr>)"
proof -
  let ?st = "generate_unique_filename e fname"
  let ?w1 = "w\<lparr>fs := (fs w)(cwd w @ [''uploads''] \<mapsto> Dir)\<rparr>"
  have ens: "ensure_uploads_directory e w = Inr ?w1"
    using io rd by (simp add: ensure_ok)
  have loc: "locate ?w1 (path_div UPLOADS_DIR ?st) = Inl ValueError"
    using nul by (simp add: stored_path locate_def stored_path_str)
  have wr: "write_file e ?w1 (path_div UPLOADS_DIR ?st) (uf_file u) = (Some ValueError, ?w1)"
    using io by (simp add: write_file_def loc)
  have ex: "path_exists ?w1 (path_div UPLOADS_DIR ?st) = Returned False"
    by (simp add: path_exists_def loc)
  show ?thesis
    using fn sz by (simp add: save_uploaded_file_def ens wr ex Let_def)
qed

lemma save_uploaded_file_guess_raises:
  assumes fn: "uf_filename u = Some fname"
    and sz: "int (length (uf_file u)) \<le> MAX_FILE_SIZE"
    and io: "\<not> mkdir_fault e" "\<not> open_fault e" "write_fault e = None" "\<not> unlink_fault e"
    and rd: "storage_ready w"
    and bw: "blob_writable w (generate_unique_filename e fname)"
    and gr: "\<not> truthy (uf_content_type u)" "guess_type e fname = Raised err"
  shows "save_uploaded_file e w u =
    (Returned None,
     w\<lparr>fs := (fs w)(cwd w @ [''uploads''] \<mapsto> Dir,
                    cwd w @ [''uploads'', generate_unique_filename e fname] := None)\<rparr>)"
proof -
  let ?st = "generate_unique_filename e fname"
  let ?w1 = "w\<lparr>fs := (fs w)(cwd w @ [''uploads''] \<mapsto> Dir)\<rparr>"
  let ?w2 = "w\<lparr>fs := (fs w)(cwd w @ [''uploads''] \<mapsto> Dir,
                  cwd w @ [''uploads'', ?st] \<mapsto> File (uf_file u))\<rparr>"
  have ens: "ensure_uploads_directory e w = Inr ?w1"
    using io rd by (simp add: ensure_ok)
  have cw: "fs w (cwd w) = Some Dir" using rd by (simp add: storage_ready_def)
  have loc1: "locate ?w1 (path_div UPLOADS_DIR ?st) = Inr (cwd w @ [''uploads'', ?st])"
    using cw bw stored_locate [of ?w1 e fname] by (simp add: blob_writable_def)
  have loc2: "locate ?w2 (path_div UPLOADS_DIR ?st) = Inr (cwd w @ [''uploads'', ?st])"
    using cw bw stored_locate [of ?w2 e fname] by (simp add: blob_writable_def)
  have wr: "write_file e ?w1 (path_div UPLOADS_DIR ?st) (uf_file u) = (None, ?w2)"
    using io bw
    by (simp add: write_file_def loc1 blob_writable_def split: option.splits node.splits)
  have ex: "path_exists ?w2 (path_div UPLOADS_DIR ?st) = Returned True"
    by (simp add: path_exists_def loc2)
  have ul: "unlink e ?w2 (path_div UPLOADS_DIR ?st) =
      (None, w\<lparr>fs := (fs w)(cwd w @ [''uploads''] \<mapsto> Dir, cwd w @ [''uploads'', ?st] := None)\<rparr>)"
    using io by (simp add: unlink_def loc2)
  show ?thesis
    using fn sz gr by (simp add: save_uploaded_file_def ens wr ex ul Let_def)
qed

lemma save_uploaded_file_returns_row:
  assumes "save_uploaded_file e w u = (Returned (Some row), w')"
  shows "rows (db w') = rows (db w) @ [row] \<and> upload_timestamp row = utcnow e"
proof -
  have ens: "db w1 = db w" if "ensure_uploads_directory e w = Inr w1" for w1
    using that
    by (auto simp: ensure_uploads_directory_def mkdir_exist_ok_def
        split: if_splits sum.splits option.splits node.splits)
  have wr: "db w2 = db w1" if "write_file e w1 p c = (r, w2)" for w1 w2 p c r
    using that
    by (auto simp: write_file_def split: if_splits sum.splits option.splits node.splits)
  have cm: "rows d = rows d0 @ [r'] \<and> upload_timestamp r' = upload_timestamp r"
    if "session_commit e d0 r = Some (r', d)" for d0 d r r'
    using that by (auto simp: session_commit_def Let_def split: if_splits)
  from assms show ?thesis
    unfolding save_uploaded_file_def Let_def
    by (auto split: option.splits if_splits sum.splits prod.splits outcome.splits bool.splits
        dest!: ens wr cm)
qed

lemma save_upload_event_eq:
  "save_upload_event e w \<lparr>ev_name = n, ev_type = t, ev_content = c\<rparr> =
   save_uploaded_file e w \<lparr>uf_filename = n, uf_content_type = t, uf_file = c\<rparr>"
  by (simp add: save_upload_event_def save_uploaded_file_def Let_def
      cong: option.case_cong sum.case_cong prod.case_cong if_cong)

subsection \<open>The identifier generator\<close>

text \<open>
  Claim C7, as amended. \<open>generate_unique_filename\<close> returns the UUID token followed by
  \<^verbatim>\<open>Path(original_filename).suffix\<close>, and the suffix of the generated name is again that
  extension. The extension is taken from the final path component and only when its
  last dot is neither the first nor the last character of that component; it is empty
  when the filename has no dot; and for a filename without \<^verbatim>\<open>/\<close> whose last dot is
  neither first nor last it is the substring from the last dot on, as the
  specification words it.
\<close>

theorem generate_unique_filename_extension:
  "generate_unique_filename e s = uuid_str (uuid4_int (urandom e)) @ suffix (parse_path s) \<and>
   suffix (parse_path (generate_unique_filename e s)) = suffix (parse_path s) \<and>
   (CHR ''.'' \<notin> set s \<longrightarrow> suffix (parse_path s) = []) \<and>
   (CHR ''/'' \<notin> set s \<and> 0 < rfind CHR ''.'' s \<and> rfind CHR ''.'' s < int (length s) - 1 \<longrightarrow>
      suffix (parse_path s) = spec_extension s)"
proof (intro conjI impI)
  show "generate_unique_filename e s = uuid_str (uuid4_int (urandom e)) @ suffix (parse_path s)"
    by (simp add: generate_unique_filename_def Let_def)
  show "suffix (parse_path (generate_unique_filename e s)) = suffix (parse_path s)"
    unfolding generate_unique_filename_def Let_def
    using suffix_shape [of "parse_path s"] suffix_no_slash [of s] by (rule suffix_of_stored)
next
  assume "CHR ''.'' \<notin> set s"
  then have "CHR ''.'' \<notin> set (name (parse_path s))" using name_subset [of s] by blast
  then have "rfind CHR ''.'' (name (parse_path s)) = - 1" by (rule rfind_notin)
  then show "suffix (parse_path s) = []" by (simp add: suffix_def Let_def)
next
  assume a: "CHR ''/'' \<notin> set s \<and> 0 < rfind CHR ''.'' s \<and> rfind CHR ''.'' s < int (length s) - 1"
  then have "s \<noteq> []" and "s \<noteq> ''.''" by auto
  then have "parse_path s = \<lparr>path_root = [], path_tail = [s]\<rparr>" using a by (simp add: parse_simple)
  then have "name (parse_path s) = s" by (simp add: name_def)
  then show "suffix (parse_path s) = spec_extension s"
    using a by (simp add: suffix_def spec_extension_def Let_def)
qed

theorem generate_unique_filename_extension_witness:
  "generate_unique_filename env0 ''x.tar.gz'' = ''00000000-0000-4000-8000-000000000000.gz'' \<and>
   suffix (parse_path (generate_unique_filename env0 ''x.tar.gz'')) = ''.gz'' \<and>
   CHR ''/'' \<notin> set ''x.tar.gz'' \<and> 0 < rfind CHR ''.'' ''x.tar.gz'' \<and>
   rfind CHR ''.'' ''x.tar.gz'' < int (length ''x.tar.gz'') - 1 \<and>
   spec_extension ''x.tar.gz'' = ''.gz'' \<and>
   CHR ''.'' \<notin> set ''README'' \<and> suffix (parse_path ''README'') = []"
proof -
  have h1: "CHR ''/'' \<notin> set ''x.tar.gz'' \<and> 0 < rfind CHR ''.'' ''x.tar.gz'' \<and>
      rfind CHR ''.'' ''x.tar.gz'' < int (length ''x.tar.gz'') - 1"
    by (simp add: Let_def)
  have h2: "spec_extension ''x.tar.gz'' = ''.gz''" by (simp add: spec_extension_def Let_def)
  have h3: "CHR ''.'' \<notin> set ''README''" by simp
  have h4: "uuid_str (uuid4_int (urandom env0)) = ''00000000-0000-4000-8000-000000000000''"
    by (simp add: env0_def uuid0)
  note t1 = generate_unique_filename_extension [of env0 "''x.tar.gz''"]
  note t2 = generate_unique_filename_extension [of env0 "''README''"]
  have c1: "suffix (parse_path ''x.tar.gz'') = ''.gz''" using t1 h1 h2 by simp
  have c2: "generate_unique_filename env0 ''x.tar.gz'' = ''00000000-0000-4000-8000-000000000000.gz''"
    using t1 h4 c1 by simp
  have "suffix (parse_path (generate_unique_filename env0 ''x.tar.gz'')) =
      suffix (parse_path ''x.tar.gz'')"
    using t1 by (rule conjunct2 [THEN conjunct1])
  then have c3: "suffix (parse_path (generate_unique_filename env0 ''x.tar.gz'')) = ''.gz''"
    by (simp only: c1)
  have c4: "suffix (parse_path ''README'') = []" using t2 h3 by blast
  show ?thesis using h1 h2 h3 c2 c3 c4 by (intro conjI) simp_all
qed

text \<open>
  Claim C7 as stated fails: for \<^verbatim>\<open>.bashrc\<close> the substring from the last dot on is the
  whole name, and for \<^verbatim>\<open>v1.2/readme\<close> it is \<^verbatim>\<open>.2/readme\<close>, yet the generated name is
  the bare token in both cases and does not end with that substring.
\<close>

theorem extension_not_last_dot_of_filename:
  "generate_unique_filename env0 ''.bashrc'' = ''00000000-0000-4000-8000-000000000000'' \<and>
   spec_extension ''.bashrc'' = ''.bashrc'' \<and>
   \<not> endswith (generate_unique_filename env0 ''.bashrc'') (spec_extension ''.bashrc'') \<and>
   generate_unique_filename env0 ''v1.2/readme'' = ''00000000-0000-4000-8000-000000000000'' \<and>
   spec_extension ''v1.2/readme'' = ''.2/readme'' \<and>
   \<not> endswith (generate_unique_filename env0 ''v1.2/readme'') (spec_extension ''v1.2/readme'')"
  by (simp add: generate_unique_filename_def uuid0 env0_def suffix_def name_def parse_path_def
      splitroot_def spec_extension_def endswith_def Let_def)

subsection \<open>Uploads\<close>

text \<open>
  Claim C1, as amended. An upload with a filename and at most \<open>MAX_FILE_SIZE\<close> bytes,
  when no step of the storage fails (no fault is raised; the uploads directory exists
  or can be created; the generated name is at most \<open>NAME_MAX\<close> bytes, holds no NUL
  byte, and collides with no directory and no row; the content type is declared or the
  guess does not raise), makes \<open>save_uploaded_file\<close> return a row whose \<open>file_size\<close> is
  the number of bytes, whose \<open>original_filename\<close> is the filename and whose
  \<open>stored_filename\<close> is the UUID token followed by the extension; and \<open>get_file_path\<close>
  on that stored name, in the world the call leaves, yields a path whose content is
  exactly the uploaded bytes.
\<close>

theorem upload_round_trip:
  assumes "uf_filename u = Some fname"
    and "int (length (uf_file u)) \<le> MAX_FILE_SIZE"
    and "no_upload_faults e"
    and "storage_ready w"
    and "blob_writable w (generate_unique_filename e fname)"
    and "\<not> name_in_table w (generate_unique_filename e fname)"
    and "content_type_resolves e (uf_content_type u) fname"
  shows "\<exists>row w'. save_uploaded_file e w u = (Returned (Some row), w') \<and>
           file_size row = int (length (uf_file u)) \<and>
           original_filename row = fname \<and>
           stored_filename row = uuid_str (uuid4_int (urandom e)) @ suffix (parse_path fname) \<and>
           (\<exists>p. get_file_path w' (stored_filename row) = Returned (Some p) \<and>
                read_bytes w' p = Some (uf_file u))"
proof -
  let ?st = "generate_unique_filename e fname"
  have cw: "fs w (cwd w) = Some Dir" using assms(4) by (simp add: storage_ready_def)
  have nm: "length ?st \<le> NAME_MAX" "CHR 0x00 \<notin> set ?st"
    using assms(5) by (simp_all add: blob_writable_def)
  obtain g where g: "truthy (uf_content_type u) \<or> guess_type e fname = Returned g"
    using assms(7) by (auto simp: content_type_resolves_def split: outcome.splits)
  note eq = save_uploaded_file_success [OF assms(1-6) g]
  obtain row w' where res: "save_uploaded_file e w u = (Returned (Some row), w')"
    and r1: "file_size row = int (length (uf_file u))"
    and r2: "original_filename row = fname"
    and r3: "stored_filename row = ?st"
    and f0: "cwd w' = cwd w"
    and f1: "fs w' (cwd w) = Some Dir"
    and f2: "fs w' (cwd w @ [''uploads'']) = Some Dir"
    and f3: "fs w' (cwd w @ [''uploads'', ?st]) = Some (File (uf_file u))"
    by (rule that [OF eq]) (simp_all add: cw)
  have gp: "get_file_path w' ?st = Returned (Some (path_div UPLOADS_DIR ?st))"
    and rb: "read_bytes w' (path_div UPLOADS_DIR ?st) = Some (uf_file u)"
    using get_file_path_stored [of w' e fname] f0 f1 f2 f3 nm by simp_all
  have r4: "stored_filename row = uuid_str (uuid4_int (urandom e)) @ suffix (parse_path fname)"
    using r3 by (simp add: generate_unique_filename_def Let_def)
  show ?thesis using res r1 r2 r3 r4 gp rb by metis
qed

theorem upload_round_trip_witness:
  "uf_filename upload0 = Some ''test.txt'' \<and>
   int (length (uf_file upload0)) \<le> MAX_FILE_SIZE \<and>
   no_upload_faults env0 \<and> storage_ready w0 \<and>
   blob_writable w0 (generate_unique_filename env0 ''test.txt'') \<and>
   \<not> name_in_table w0 (generate_unique_filename env0 ''test.txt'') \<and>
   content_type_resolves env0 (uf_content_type upload0) ''test.txt'' \<and>
   (\<exists>row w'. save_uploaded_file env0 w0 upload0 = (Returned (Some row), w') \<and>
      file_size row = int (length (uf_file upload0)) \<and>
      original_filename row = ''test.txt'' \<and>
      stored_filename row = uuid_str (uuid4_int (urandom env0)) @ suffix (parse_path ''test.txt'') \<and>
      (\<exists>p. get_file_path w' (stored_filename row) = Returned (Some p) \<and>
           read_bytes w' p = Some (uf_file upload0)))"
proof -
  have h1: "uf_filename upload0 = Some ''test.txt''" by (simp add: upload0_def)
  have h2: "int (length (uf_file upload0)) \<le> MAX_FILE_SIZE"
    by (simp add: upload0_def MAX_FILE_SIZE_def)
  have h3: "no_upload_faults env0" by (simp add: no_upload_faults_def env0_def)
  have h4: "storage_ready w0" by (simp add: storage_ready_def w0_def fs0_def)
  have h5: "blob_writable w0 (generate_unique_filename env0 ''test.txt'')"
    by (simp add: blob_writable_def w0_def fs0_def stored_name_test_txt NAME_MAX_def)
  have h6: "\<not> name_in_table w0 (generate_unique_filename env0 ''test.txt'')"
    by (simp add: name_in_table_def w0_def)
  have h7: "content_type_resolves env0 (uf_content_type upload0) ''test.txt''"
    by (simp add: content_type_resolves_def upload0_def truthy_def)
  show ?thesis
    using h1 h2 h3 h4 h5 h6 h7 upload_round_trip [OF h1 h2 h3 h4 h5 h6 h7] by (intro conjI)
qed

text \<open>
  Claim C1 as stated fails on a healthy, fresh storage. A filename of 221 characters
  whose extension has 220 gives a stored name of 256 bytes: \<^verbatim>\<open>open\<close> refuses it with
  errno 36, \<^verbatim>\<open>file_path.exists()\<close> in the handler raises the same error again, and the
  call ends in that exception. A filename with a NUL byte in its extension makes
  \<^verbatim>\<open>open\<close> raise \<^verbatim>\<open>ValueError\<close>, and the call returns \<^verbatim>\<open>None\<close>. And when no type is
  declared and the MIME guess raises on the filename, the blob already written is
  removed and the call returns \<^verbatim>\<open>None\<close>. No row is inserted in any of the three.
\<close>

theorem long_filename_raises:
  "uf_filename upload_long_name = Some (''a.'' @ replicate 219 CHR ''b'') \<and>
   length (''a.'' @ replicate 219 CHR ''b'') = 221 \<and>
   int (length (uf_file upload_long_name)) \<le> MAX_FILE_SIZE \<and>
   no_upload_faults env0 \<and> storage_ready w0 \<and>
   length (generate_unique_filename env0 (''a.'' @ replicate 219 CHR ''b'')) = 256 \<and>
   fst (save_uploaded_file env0 w0 upload_long_name) = Raised OSError_ENAMETOOLONG \<and>
   rows (db (snd (save_uploaded_file env0 w0 upload_long_name))) = [] \<and>
   int (length (uf_file upload_nul_name)) \<le> MAX_FILE_SIZE \<and>
   save_uploaded_file env0 w0 upload_nul_name =
     (Returned None, w0\<lparr>fs := (fs w0)(cwd w0 @ [''uploads''] \<mapsto> Dir)\<rparr>) \<and>
   int (length (uf_file upload_bad_guess)) \<le> MAX_FILE_SIZE \<and>
   no_upload_faults env_guess_raises \<and>
   fst (save_uploaded_file env_guess_raises w0 upload_bad_guess) = Returned None \<and>
   rows (db (snd (save_uploaded_file env_guess_raises w0 upload_bad_guess))) = []"
proof -
  have h1: "uf_filename upload_long_name = Some (''a.'' @ replicate 219 CHR ''b'')"
    by (simp add: upload_long_name_def)
  have h2: "int (length (uf_file upload_long_name)) \<le> MAX_FILE_SIZE"
    by (simp add: upload_long_name_def MAX_FILE_SIZE_def)
  have h3: "no_upload_faults env0" by (simp add: no_upload_faults_def env0_def)
  have io: "\<not> mkdir_fault env0" "\<not> open_fault env0" by (simp_all add: env0_def)
  have h4: "storage_ready w0" by (simp add: storage_ready_def w0_def fs0_def)
  have h5: "length (generate_unique_filename env0 (''a.'' @ replicate 219 CHR ''b'')) = 256"
    unfolding stored_name_long by simp
  have h6: "NAME_MAX < length (generate_unique_filename env0 (''a.'' @ replicate 219 CHR ''b''))"
    unfolding h5 by (simp add: NAME_MAX_def)
  have h7: "CHR 0x00 \<notin> set (generate_unique_filename env0 (''a.'' @ replicate 219 CHR ''b''))"
    unfolding stored_name_long by simp
  note eq = save_uploaded_file_name_too_long [OF h1 h2 io h4 h6 h7]
  have c1: "fst (save_uploaded_file env0 w0 upload_long_name) = Raised OSError_ENAMETOOLONG"
    by (simp add: eq)
  have c2: "rows (db (snd (save_uploaded_file env0 w0 upload_long_name))) = []"
    unfolding eq by (simp add: w0_def)
  have h0: "length (''a.'' @ replicate 219 CHR ''b'') = 221" by simp
  have n1: "uf_filename upload_nul_name = Some [CHR ''a'', CHR ''.'', CHR 0x00, CHR ''b'']"
    by (simp add: upload_nul_name_def)
  have n2: "int (length (uf_file upload_nul_name)) \<le> MAX_FILE_SIZE"
    by (simp add: upload_nul_name_def MAX_FILE_SIZE_def)
  have n3: "CHR 0x00 \<in> set (generate_unique_filename env0 [CHR ''a'', CHR ''.'', CHR 0x00, CHR ''b''])"
    unfolding stored_name_nul by simp
  note c3 = save_uploaded_file_nul [OF n1 n2 io h4 n3]
  have g1: "uf_filename upload_bad_guess = Some ''//[x.txt''"
    by (simp add: upload_bad_guess_def)
  have g2: "int (length (uf_file upload_bad_guess)) \<le> MAX_FILE_SIZE"
    by (simp add: upload_bad_guess_def MAX_FILE_SIZE_def)
  have g3: "\<not> mkdir_fault env_guess_raises" "\<not> open_fault env_guess_raises"
    "write_fault env_guess_raises = None" "\<not> unlink_fault env_guess_raises"
    by (simp_all add: env_guess_raises_def env0_def)
  have g4: "no_upload_faults env_guess_raises"
    by (simp add: no_upload_faults_def env_guess_raises_def env0_def)
  have g5: "blob_writable w0 (generate_unique_filename env_guess_raises ''//[x.txt'')"
    by (simp add: blob_writable_def w0_def fs0_def stored_name_bad_guess NAME_MAX_def)
  have g6: "\<not> truthy (uf_content_type upload_bad_guess)"
    by (simp add: upload_bad_guess_def truthy_def)
  have g7: "guess_type env_guess_raises ''//[x.txt'' = Raised ValueError"
    by (simp add: env_guess_raises_def)
  note eq2 = save_uploaded_file_guess_raises [OF g1 g2 g3 h4 g5 g6 g7]
  have c4: "fst (save_uploaded_file env_guess_raises w0 upload_bad_guess) = Returned None"
    by (simp add: eq2)
  have c5: "rows (db (snd (save_uploaded_file env_guess_raises w0 upload_bad_guess))) = []"
    unfolding eq2 by (simp add: w0_def)
  show ?thesis using h1 h0 h2 h3 h4 h5 c1 c2 n2 c3 g2 g4 c4 c5 by (intro conjI)
qed

text \<open>
  Claim C2. An upload whose content is longer than \<open>MAX_FILE_SIZE\<close>, which is
  \<open>300 * 1024 * 1024\<close> bytes, makes \<open>save_uploaded_file\<close> return \<^verbatim>\<open>None\<close> (the only
  rejection value the function has) and leaves the world as it was: no directory is
  created, no blob is written, no row is inserted.
\<close>

theorem too_large_rejected:
  assumes "MAX_FILE_SIZE < int (length (uf_file u))"
  shows "MAX_FILE_SIZE = 300 * 1024 * 1024 \<and> save_uploaded_file e w u = (Returned None, w)"
  using assms by (simp add: save_uploaded_file_def MAX_FILE_SIZE_def split: option.splits)

theorem too_large_rejected_witness:
  "MAX_FILE_SIZE < int (length (uf_file upload_large)) \<and>
   save_uploaded_file env0 w0 upload_large = (Returned None, w0)"
  using too_large_rejected [of upload_large env0 w0]
  by (simp add: upload_large_def MAX_FILE_SIZE_def)

text \<open>
  Claim C4, as amended. An upload whose filename is absent (\<^verbatim>\<open>None\<close>) is rejected by
  both entry points with \<^verbatim>\<open>None\<close> and the world is left as it was.
\<close>

theorem absent_filename_rejected:
  assumes "uf_filename u = None" and "ev_name v = None"
  shows "save_uploaded_file e w u = (Returned None, w) \<and>
         save_upload_event e w v = (Returned None, w)"
  using assms by (simp add: save_uploaded_file_def save_upload_event_def)

theorem absent_filename_rejected_witness:
  "uf_filename upload_absent_name = None \<and> ev_name event_absent_name = None \<and>
   save_uploaded_file env0 w0 upload_absent_name = (Returned None, w0) \<and>
   save_upload_event env0 w0 event_absent_name = (Returned None, w0)"
  using absent_filename_rejected [of upload_absent_name event_absent_name env0 w0]
  by (simp add: upload_absent_name_def event_absent_name_def)

text \<open>
  Claim C4 as stated fails for the empty string: the guard tests \<^verbatim>\<open>is None\<close> only, so
  an upload named \<^verbatim>\<open>""\<close> is stored under the bare token and a row is inserted.
\<close>

theorem empty_filename_accepted:
  "fst (save_uploaded_file env0 w0 upload_empty_name) =
     Returned (Some
       \<lparr>id_field = Some 1, original_filename = [],
        stored_filename = ''00000000-0000-4000-8000-000000000000'',
        file_size = 2, content_type = ''text/plain'', upload_timestamp = 1700000000,
        public_url = ''/files/00000000-0000-4000-8000-000000000000''\<rparr>) \<and>
   fs (snd (save_uploaded_file env0 w0 upload_empty_name))
     [''srv'', ''uploads'', ''00000000-0000-4000-8000-000000000000''] = Some (File [104, 105]) \<and>
   length (rows (db (snd (save_uploaded_file env0 w0 upload_empty_name)))) = 1"
proof -
  have h1: "uf_filename upload_empty_name = Some []" by (simp add: upload_empty_name_def)
  have h2: "int (length (uf_file upload_empty_name)) \<le> MAX_FILE_SIZE"
    by (simp add: upload_empty_name_def MAX_FILE_SIZE_def)
  have h3: "no_upload_faults env0" by (simp add: no_upload_faults_def env0_def)
  have h4: "storage_ready w0" by (simp add: storage_ready_def w0_def fs0_def)
  have h5: "blob_writable w0 (generate_unique_filename env0 [])"
    by (simp add: blob_writable_def w0_def fs0_def stored_name_empty NAME_MAX_def)
  have h6: "\<not> name_in_table w0 (generate_unique_filename env0 [])"
    by (simp add: name_in_table_def w0_def)
  have h7: "truthy (uf_content_type upload_empty_name) \<or> guess_type env0 [] = Returned None"
    by (simp add: upload_empty_name_def truthy_def)
  show ?thesis
    unfolding save_uploaded_file_success [OF h1 h2 h3 h4 h5 h6 h7] stored_name_empty
    by (simp add: upload_empty_name_def w0_def env0_def truthy_def)
qed

text \<open>
  Claim C5, as amended. When the blob has been written and the insert then fails (a
  database fault, or a row with the generated name already in the table), and the
  deletion succeeds, both entry points return \<^verbatim>\<open>None\<close>, the table is exactly what it was
  before the call (no row is added), the blob file of the generated name is gone, and
  \<open>get_file_path\<close> no longer finds it.
\<close>

theorem insert_failure_rolls_back:
  assumes "uf_filename u = Some fname"
    and "int (length (uf_file u)) \<le> MAX_FILE_SIZE"
    and "\<not> mkdir_fault e" and "\<not> open_fault e" and "write_fault e = None"
    and "\<not> unlink_fault e"
    and "storage_ready w"
    and "blob_writable w (generate_unique_filename e fname)"
    and "commit_fault e \<or> name_in_table w (generate_unique_filename e fname)"
  shows "\<exists>w'. save_uploaded_file e w u = (Returned None, w') \<and>
           save_upload_event e w
             \<lparr>ev_name = uf_filename u, ev_type = uf_content_type u, ev_content = uf_file u\<rparr> =
             (Returned None, w') \<and>
           db w' = db w \<and>
           fs w' (cwd w @ [''uploads'', generate_unique_filename e fname]) = None \<and>
           get_file_path w' (generate_unique_filename e fname) = Returned None"
proof -
  let ?st = "generate_unique_filename e fname"
  have cw: "fs w (cwd w) = Some Dir" using assms(7) by (simp add: storage_ready_def)
  have nm: "length ?st \<le> NAME_MAX" "CHR 0x00 \<notin> set ?st"
    using assms(8) by (simp_all add: blob_writable_def)
  have ev: "save_upload_event e w
      \<lparr>ev_name = uf_filename u, ev_type = uf_content_type u, ev_content = uf_file u\<rparr> =
      save_uploaded_file e w u"
    by (cases u) (simp add: save_upload_event_eq)
  note eq = save_uploaded_file_insert_failure [OF assms]
  obtain w' where res: "save_uploaded_file e w u = (Returned None, w')"
    and d: "db w' = db w"
    and f0: "cwd w' = cwd w"
    and f1: "fs w' (cwd w) = Some Dir"
    and f2: "fs w' (cwd w @ [''uploads'']) = Some Dir"
    and f3: "fs w' (cwd w @ [''uploads'', ?st]) = None"
    by (rule that [OF eq]) (simp_all add: cw)
  have gp: "get_file_path w' ?st = Returned None"
    using get_file_path_stored(1) [of w' e fname] f0 f1 f2 f3 nm by simp
  show ?thesis using res ev d f3 gp by metis
qed

theorem insert_failure_rolls_back_witness:
  "uf_filename upload0 = Some ''test.txt'' \<and>
   int (length (uf_file upload0)) \<le> MAX_FILE_SIZE \<and>
   \<not> mkdir_fault env_commit_fault \<and> \<not> open_fault env_commit_fault \<and>
   write_fault env_commit_fault = None \<and> \<not> unlink_fault env_commit_fault \<and>
   storage_ready w0 \<and>
   blob_writable w0 (generate_unique_filename env_commit_fault ''test.txt'') \<and>
   commit_fault env_commit_fault \<and>
   (\<exists>w'. save_uploaded_file env_commit_fault w0 upload0 = (Returned None, w') \<and>
      db w' = db w0 \<and>
      fs w' (cwd w0 @ [''uploads'', generate_unique_filename env_commit_fault ''test.txt'']) = None \<and>
      get_file_path w' (generate_unique_filename env_commit_fault ''test.txt'') = Returned None)"
proof -
  have h1: "uf_filename upload0 = Some ''test.txt''" by (simp add: upload0_def)
  have h2: "int (length (uf_file upload0)) \<le> MAX_FILE_SIZE"
    by (simp add: upload0_def MAX_FILE_SIZE_def)
  have h3: "\<not> mkdir_fault env_commit_fault" "\<not> open_fault env_commit_fault"
    "write_fault env_commit_fault = None" "\<not> unlink_fault env_commit_fault"
    by (simp_all add: env_commit_fault_def env0_def)
  have h4: "storage_ready w0" by (simp add: storage_ready_def w0_def fs0_def)
  have h5: "blob_writable w0 (generate_unique_filename env_commit_fault ''test.txt'')"
    by (simp add: blob_writable_def w0_def fs0_def stored_name_commit_fault
        stored_name_test_txt NAME_MAX_def)
  have h6: "commit_fault env_commit_fault" by (simp add: env_commit_fault_def)
  have h7: "commit_fault env_commit_fault \<or>
      name_in_table w0 (generate_unique_filename env_commit_fault ''test.txt'')"
    using h6 by simp
  show ?thesis
    using h1 h2 h3 h4 h5 h6 insert_failure_rolls_back [OF h1 h2 h3 h4 h5 h7] by blast
qed

text \<open>
  Claim C5 as stated fails when the insert fails because the generated name is already
  taken: the call returns \<^verbatim>\<open>None\<close> and removes the blob, but a row for the generated
  stored name exists after the call, the one that was there before.
\<close>

theorem collision_keeps_old_row:
  "name_in_table w1 (generate_unique_filename env0 ''test.txt'') \<and>
   fst (save_uploaded_file env0 w1 upload0) = Returned None \<and>
   name_in_table (snd (save_uploaded_file env0 w1 upload0))
     (generate_unique_filename env0 ''test.txt'') \<and>
   fs (snd (save_uploaded_file env0 w1 upload0))
     [''srv'', ''uploads'', generate_unique_filename env0 ''test.txt''] = None"
proof -
  have h1: "uf_filename upload0 = Some ''test.txt''" by (simp add: upload0_def)
  have h2: "int (length (uf_file upload0)) \<le> MAX_FILE_SIZE"
    by (simp add: upload0_def MAX_FILE_SIZE_def)
  have h3: "\<not> mkdir_fault env0" "\<not> open_fault env0" "write_fault env0 = None"
    "\<not> unlink_fault env0"
    by (simp_all add: env0_def)
  have h4: "storage_ready w1" by (simp add: storage_ready_def w1_def fs0_def)
  have h5: "blob_writable w1 (generate_unique_filename env0 ''test.txt'')"
    by (simp add: blob_writable_def w1_def fs0_def stored_name_test_txt NAME_MAX_def)
  have h6: "name_in_table w1 (generate_unique_filename env0 ''test.txt'')"
    by (simp add: name_in_table_def w1_def row1_def stored_name_test_txt)
  have h7: "commit_fault env0 \<or> name_in_table w1 (generate_unique_filename env0 ''test.txt'')"
    using h6 by simp
  show ?thesis
    unfolding save_uploaded_file_insert_failure [OF h1 h2 h3 h4 h5 h7]
    using h6 by (simp add: name_in_table_def w1_def)
qed

text \<open>
  Claim C10. Given the same filename, declared content type and bytes, in the same
  environment (random bytes, clock, faults) and the same world, \<open>save_upload_event\<close>
  and \<open>save_uploaded_file\<close> return the same outcome and leave the same world.
\<close>

theorem entry_points_equivalent:
  assumes "ev_name v = uf_filename u"
    and "ev_type v = uf_content_type u"
    and "ev_content v = uf_file u"
  shows "save_upload_event e w v = save_uploaded_file e w u"
proof -
  have "v = \<lparr>ev_name = uf_filename u, ev_type = uf_content_type u, ev_content = uf_file u\<rparr>"
    using assms by simp
  moreover have "u = \<lparr>uf_filename = uf_filename u, uf_content_type = uf_content_type u,
      uf_file = uf_file u\<rparr>"
    by simp
  ultimately show ?thesis using save_upload_event_eq by metis
qed

theorem entry_points_equivalent_witness:
  "ev_name event0 = uf_filename upload0 \<and> ev_type event0 = uf_content_type upload0 \<and>
   ev_content event0 = uf_file upload0 \<and>
   save_upload_event env0 w0 event0 = save_uploaded_file env0 w0 upload0"
  using entry_points_equivalent [of event0 upload0 env0 w0]
  by (simp add: event0_def upload0_def)

subsection \<open>Resolving stored names\<close>




text \<open>
  Claim C9. \<open>get_file_path\<close> tests existence only: a name whose path resolves to an
  existing directory is returned, not \<^verbatim>\<open>None\<close>; the empty string resolves to the uploads
  directory itself and yields its path.
\<close>

theorem get_file_path_returns_directories:
  "(locate w (path_div UPLOADS_DIR s) = Inr loc \<and> fs w loc = Some Dir \<longrightarrow>
      get_file_path w s = Returned (Some (path_div UPLOADS_DIR s))) \<and>
   (fs w (cwd w) = Some Dir \<and> fs w (cwd w @ [''uploads'']) = Some Dir \<longrightarrow>
      get_file_path w [] = Returned (Some UPLOADS_DIR) \<and>
      locate w UPLOADS_DIR = Inr (cwd w @ [''uploads'']))"
  by (simp add: get_file_path_def path_exists_def path_div_def parse_path_def splitroot_def
      UPLOADS_DIR_eq locate_def path_str_def NAME_MAX_def PATH_MAX_def)

theorem get_file_path_returns_directories_witness:
  "locate w1 (path_div UPLOADS_DIR ''thumbs'') = Inr [''srv'', ''uploads'', ''thumbs''] \<and>
   fs w1 [''srv'', ''uploads'', ''thumbs''] = Some Dir \<and>
   get_file_path w1 ''thumbs'' = Returned (Some (path_div UPLOADS_DIR ''thumbs'')) \<and>
   fs w1 (cwd w1) = Some Dir \<and> fs w1 (cwd w1 @ [''uploads'']) = Some Dir \<and>
   get_file_path w1 [] = Returned (Some UPLOADS_DIR)"
proof -
  have h1: "locate w1 (path_div UPLOADS_DIR ''thumbs'') = Inr [''srv'', ''uploads'', ''thumbs'']"
    by (simp add: path_div_def parse_path_def splitroot_def UPLOADS_DIR_eq locate_def
        path_str_def NAME_MAX_def PATH_MAX_def w1_def fs0_def)
  have h2: "fs w1 [''srv'', ''uploads'', ''thumbs''] = Some Dir"
    by (simp add: w1_def fs0_def)
  have h3: "fs w1 (cwd w1) = Some Dir" "fs w1 (cwd w1 @ [''uploads'']) = Some Dir"
    by (simp_all add: w1_def fs0_def)
  show ?thesis
    using h1 h2 h3
      get_file_path_returns_directories [of w1 "''thumbs''" "[''srv'', ''uploads'', ''thumbs'']"]
    by simp
qed

subsection \<open>Listing\<close>

lemma foldr_insort_key_least:
  "\<forall>x\<in>set xs. f r < f x \<Longrightarrow>
   foldr (insort_key f) xs (r # ys) = r # foldr (insort_key f) xs ys"
  for f :: "'a \<Rightarrow> int"
  by (induction xs) auto

lemma order_by_desc_snoc:
  assumes "\<forall>x\<in>set xs. key x < key r"
  shows "order_by_desc key (xs @ [r]) = r # order_by_desc key xs"
  using foldr_insort_key_least [of xs "\<lambda>r. - key r" r "[]"] assms
  by (simp add: order_by_desc_def sort_key_def)

lemma order_by_desc_increasing:
  "sorted_wrt (\<lambda>a b. key a < key b) xs \<Longrightarrow> order_by_desc key xs = rev xs"
proof (induction xs rule: rev_induct)
  case Nil
  then show ?case by (simp add: order_by_desc_def)
next
  case (snoc r xs)
  then have "sorted_wrt (\<lambda>a b. key a < key b) xs" and "\<forall>x\<in>set xs. key x < key r"
    by (simp_all add: sorted_wrt_append)
  then show ?case using snoc.IH by (simp add: order_by_desc_snoc)
qed

lemma order_by_desc_sorted:
  "sorted_wrt (\<lambda>a b. key b \<le> key a) (order_by_desc key xs)"
proof -
  have "sorted (map (\<lambda>r. - key r) (order_by_desc key xs))"
    by (simp add: order_by_desc_def)
  then show ?thesis by (simp add: sorted_map)
qed

lemma order_by_desc_stable:
  "filter (\<lambda>r. key r = t) (order_by_desc key xs) = filter (\<lambda>r. key r = t) xs"
  using sort_key_stable [of "\<lambda>r. - key r" "- t" xs] by (simp add: order_by_desc_def)

text \<open>
  Claim C6. \<open>get_all_uploaded_files\<close> returns all rows, ordered by timestamp
  descending, and rows with equal timestamps keep their insertion order: for every
  timestamp, the rows carrying it appear in the listing in the order of the table. When
  the timestamps increase strictly with insertion the listing is the table reversed
  (uploads A, B, C are listed C, B, A), and a successful upload stamped later than
  every row of the table is listed first.
\<close>

theorem listing_newest_first:
  "mset (get_all_uploaded_files w) = mset (rows (db w)) \<and>
   sorted_wrt (\<lambda>a b. upload_timestamp b \<le> upload_timestamp a) (get_all_uploaded_files w) \<and>
   (\<forall>t. filter (\<lambda>r. upload_timestamp r = t) (get_all_uploaded_files w) =
        filter (\<lambda>r. upload_timestamp r = t) (rows (db w))) \<and>
   (sorted_wrt (\<lambda>a b. upload_timestamp a < upload_timestamp b) (rows (db w)) \<longrightarrow>
      get_all_uploaded_files w = rev (rows (db w))) \<and>
   (\<forall>e u row w'.
      save_uploaded_file e w u = (Returned (Some row), w') \<and>
      (\<forall>r\<in>set (rows (db w)). upload_timestamp r < utcnow e) \<longrightarrow>
      get_all_uploaded_files w' = row # get_all_uploaded_files w)"
proof (intro conjI allI impI)
  show "mset (get_all_uploaded_files w) = mset (rows (db w))"
    by (simp add: get_all_uploaded_files_def order_by_desc_def)
  show "sorted_wrt (\<lambda>a b. upload_timestamp b \<le> upload_timestamp a) (get_all_uploaded_files w)"
    by (simp add: get_all_uploaded_files_def order_by_desc_sorted)
  show "filter (\<lambda>r. upload_timestamp r = t) (get_all_uploaded_files w) =
        filter (\<lambda>r. upload_timestamp r = t) (rows (db w))" for t
    by (simp add: get_all_uploaded_files_def order_by_desc_stable)
  show "get_all_uploaded_files w = rev (rows (db w))"
    if "sorted_wrt (\<lambda>a b. upload_timestamp a < upload_timestamp b) (rows (db w))"
    using that by (simp add: get_all_uploaded_files_def order_by_desc_increasing)
  show "get_all_uploaded_files w' = row # get_all_uploaded_files w"
    if "save_uploaded_file e w u = (Returned (Some row), w') \<and>
        (\<forall>r\<in>set (rows (db w)). upload_timestamp r < utcnow e)" for e u row w'
  proof -
    from that have "rows (db w') = rows (db w) @ [row]" and "upload_timestamp row = utcnow e"
      using save_uploaded_file_returns_row [of e w u row w'] by simp_all
    then show ?thesis
      using that by (simp add: get_all_uploaded_files_def order_by_desc_snoc)
  qed
qed

theorem listing_newest_first_witness:
  "sorted_wrt (\<lambda>a b. upload_timestamp a < upload_timestamp b) (rows (db w_abc)) \<and>
   get_all_uploaded_files w_abc = [rowC, rowD, rowA] \<and>
   filter (\<lambda>r. upload_timestamp r = 1700000000) (get_all_uploaded_files w_ties) = [rowA, rowB] \<and>
   fst (save_uploaded_file env1 w1 upload0) = Returned (Some row2) \<and>
   rows (db w1) = [row1] \<and> upload_timestamp row1 < utcnow env1 \<and>
   get_all_uploaded_files (snd (save_uploaded_file env1 w1 upload0)) =
     row2 # get_all_uploaded_files w1"
proof -
  have a1: "sorted_wrt (\<lambda>a b. upload_timestamp a < upload_timestamp b) (rows (db w_abc))"
    by (simp add: w_abc_def rowA_def rowC_def rowD_def)
  have a2: "get_all_uploaded_files w_abc = [rowC, rowD, rowA]"
    using a1 listing_newest_first [of w_abc] by (simp add: w_abc_def)
  have b: "filter (\<lambda>r. upload_timestamp r = 1700000000) (get_all_uploaded_files w_ties) =
      [rowA, rowB]"
    using listing_newest_first [of w_ties] by (simp add: w_ties_def rowA_def rowB_def)
  have h1: "uf_filename upload0 = Some ''test.txt''" by (simp add: upload0_def)
  have h2: "int (length (uf_file upload0)) \<le> MAX_FILE_SIZE"
    by (simp add: upload0_def MAX_FILE_SIZE_def)
  have h3: "no_upload_faults env1" by (simp add: no_upload_faults_def env1_def env0_def)
  have h4: "storage_ready w1" by (simp add: storage_ready_def w1_def fs0_def)
  have h5: "blob_writable w1 (generate_unique_filename env1 ''test.txt'')"
    by (simp add: blob_writable_def w1_def fs0_def stored_name_env1 NAME_MAX_def)
  have h6: "\<not> name_in_table w1 (generate_unique_filename env1 ''test.txt'')"
    by (simp add: name_in_table_def w1_def row1_def stored_name_env1)
  have h7: "truthy (uf_content_type upload0) \<or> guess_type env1 ''test.txt'' = Returned None"
    by (simp add: upload0_def truthy_def)
  have c1: "fst (save_uploaded_file env1 w1 upload0) = Returned (Some row2)"
    unfolding save_uploaded_file_success [OF h1 h2 h3 h4 h5 h6 h7] stored_name_env1
    by (simp add: row2_def upload0_def w1_def env1_def env0_def truthy_def)
  have c2: "\<forall>r\<in>set (rows (db w1)). upload_timestamp r < utcnow env1"
    by (simp add: w1_def row1_def env1_def env0_def)
  have "save_uploaded_file env1 w1 upload0 =
      (Returned (Some row2), snd (save_uploaded_file env1 w1 upload0))"
    using c1 by (simp add: prod_eq_iff)
  with c2 have c3: "get_all_uploaded_files (snd (save_uploaded_file env1 w1 upload0)) =
      row2 # get_all_uploaded_files w1"
    using listing_newest_first [of w1] by blast
  have d1: "rows (db w1) = [row1]" by (simp add: w1_def)
  have d2: "upload_timestamp row1 < utcnow env1" by (simp add: row1_def env1_def env0_def)
  show ?thesis using a1 a2 b c1 d1 d2 c3 by (intro conjI)
qed

subsection \<open>Formatting sizes\<close>

text \<open>
  Claim C8. \<open>format_file_size\<close> maps 0 to "0 B", 512 to "512.0 B", 1024 to "1.0 KB",
  1536 to "1.5 KB", 1048576 to "1.0 MB" and 1073741824 to "1.0 GB".
\<close>

theorem format_file_size_examples:
  "format_file_size 0 = Returned ''0 B'' \<and>
   format_file_size 512 = Returned ''512.0 B'' \<and>
   format_file_size 1024 = Returned ''1.0 KB'' \<and>
   format_file_size 1536 = Returned ''1.5 KB'' \<and>
   format_file_size 1048576 = Returned ''1.0 MB'' \<and>
   format_file_size 1073741824 = Returned ''1.0 GB''"
  by (simp add: format_file_size_def py_float_def size_loop.simps size_names_def
      format_1f_def str_of_nat.simps digit_char_def)

theorem format_file_size_examples_witness:
  "format_file_size 1536 = Returned ''1.5 KB''"
  using format_file_size_examples by simp

end
